theory Spec2Isabelle
  imports Complex_Main "HOL-Library.Log_Nat"
begin

section \<open>Data model of the order service\<close>

text \<open>
  The order controller of TradeSphere (\<^verbatim>\<open>order.controller.ts\<close>) is an Express
  controller over three collaborators: a Redis cache of payment sessions, a Prisma
  database and the Stripe webhook verifier.  Each handler becomes a function from the
  request and the state of these collaborators to a result and the new state.

  \<^item> A handler ends in \<^verbatim>\<open>res.status(n)...\<close> (an \<open>Inr\<close> response) or in
    \<^verbatim>\<open>next(error)\<close> (an \<open>Inl\<close> error).
  \<^item> A Javascript number is a finite IEEE double, kept as the rational it is; each
    \<open>+\<close>, \<open>-\<close>, \<open>*\<close> and \<open>/\<close> of the source rounds its exact result to the nearest double
    (\<open>js_add\<close>, \<open>js_sub\<close>, \<open>js_mul\<close>, \<open>js_div\<close>).  \<open>Infinity\<close> and \<open>NaN\<close> are not
    modelled: a statement about amounts holds for magnitudes below the overflow of doubles.
    Quantities are integers.
  \<^item> A session is kept in the cache as the parsed object, not as its JSON text; the
    time-to-live of a key is not modelled.
  \<^item> Every call to Redis, Prisma, the mailer and the log service is appended to
    \<open>calls\<close>, so that "no further calls" is a statement about this trace.
  \<^item> The collaborators answer: the only exceptions in the model are the TypeError of the
    misspelt comparison in \<^verbatim>\<open>createPaymentSession\<close> and Prisma's refusal to update a
    row that does not exist.  One request is handled at a time.
\<close>

datatype error =
    ValidationError string
  | NotFoundError string
  | TypeError string
  | RecordNotFound string

fun error_message :: "error \<Rightarrow> string" where
  "error_message (ValidationError m) = m"
| "error_message (NotFoundError m) = m"
| "error_message (TypeError m) = m"
| "error_message (RecordNotFound m) = m"

record cart_item =
  item_id :: string
  quantity :: int
  sale_price :: rat
  shopId :: string
  selectedOptions :: "(string \<times> string) list option"
  title :: "string option"
  discount_codes :: "string list option"

text \<open>The coupon object that the client posts with the cart and that is cached with the
  session.  An absent string field is the empty string (falsy), an absent number is 0.\<close>

record coupon =
  code :: string
  discountedProductId :: string
  discountPercent :: rat
  discountAmount :: rat

record seller_data =
  sd_shopId :: string
  sd_sellerId :: string
  stripeAccountId :: "string option"

record session =
  userId :: string
  cart :: "cart_item list"
  sellers :: "seller_data list"
  totalAmount :: rat
  shippingAddressId :: "string option"
  session_coupon :: "coupon option"

record user_row =
  user_name :: string
  user_email :: string

record shop_row =
  shop_id :: string
  sellerId :: string
  shop_name :: string
  stripeId :: "string option"

record discount_row =
  discount_id :: string
  discountCode :: string
  discountType :: string
  discountValue :: rat

record order_item =
  oi_productId :: string
  oi_quantity :: int
  oi_price :: rat
  oi_selectedOptions :: "(string \<times> string) list option"

record order_row =
  o_id :: string
  o_userId :: string
  o_shopId :: string
  o_total :: rat
  o_status :: string
  o_shippingAddressId :: "string option"
  o_couponCode :: "string option"
  o_discountAmount :: rat
  o_items :: "order_item list"
  o_updatedAt :: nat

record product_row =
  stock :: int
  totalSales :: int

record product_analytics =
  pa_shopId :: string
  purchases :: int
  lastViewedAt :: nat

record user_action =
  ua_productId :: string
  ua_shopId :: string
  ua_action :: string
  timeStamp :: nat

record user_analytics =
  lastVisited :: nat
  actions :: "user_action list option"

record notification =
  n_title :: string
  n_message :: string
  creatorId :: string
  receiverId :: string
  redirect_link :: string

record email =
  e_to :: "string option"
  e_subject :: string
  e_template :: string
  e_name :: "string option"
  e_cart :: "cart_item list"
  e_totalAmount :: rat
  trackingUrl :: string

record log_entry =
  log_type :: string
  log_message :: string
  log_source :: string

datatype call =
    RedisKeys string
  | RedisGet string
  | RedisDel string
  | RedisSetex string nat
  | UsersFindUnique string
  | ShopsFindMany "string list"
  | DiscountCodesFindUnique string
  | OrdersCreate string
  | OrdersFindUnique string
  | OrdersUpdate string
  | ProductsUpdate string
  | ProductAnalyticsUpsert string
  | UserAnalyticsFindUnique string
  | UserAnalyticsUpdate string
  | UserAnalyticsCreate string
  | NotificationsCreate string
  | SendEmail
  | SendLog

record world =
  redis :: "(string \<times> session) list"
  users :: "string \<rightharpoonup> user_row"
  shops :: "shop_row list"
  discount_codes_table :: "string \<rightharpoonup> discount_row"
  orders :: "order_row list"
  products :: "string \<rightharpoonup> product_row"
  productAnalytics :: "string \<rightharpoonup> product_analytics"
  userAnalytics :: "string \<rightharpoonup> user_analytics"
  notifications :: "notification list"
  emails :: "email list"
  logs :: "log_entry list"
  calls :: "call list"

text \<open>What a handler sends back.\<close>

record coupon_result =
  valid :: bool
  discount :: rat
  r_discountAmount :: rat
  r_discountedProductId :: "string option"
  r_discountType :: "string option"
  r_message :: string

datatype body =
    Text string
  | Received
  | SessionId "string option"
  | ErrorJson string
  | CouponJson coupon_result
  | OrderJson string order_row

record response =
  status :: nat
  body :: body

section \<open>The collaborators\<close>

definition trace :: "call \<Rightarrow> world \<Rightarrow> world" where
  "trace c w = w\<lparr>calls := calls w @ [c]\<rparr>"

definition sendLog :: "string \<Rightarrow> string \<Rightarrow> world \<Rightarrow> world" where
  "sendLog ty msg w =
     trace SendLog (w\<lparr>logs := logs w @
       [\<lparr>log_type = ty, log_message = msg, log_source = ''order-service''\<rparr>]\<rparr>)"

subsection \<open>Redis\<close>

definition starts_with :: "string \<Rightarrow> string \<Rightarrow> bool" where
  "starts_with p k = (take (length p) k = p)"

definition redis_keys :: "string \<Rightarrow> world \<Rightarrow> string list \<times> world" where
  \<comment> \<open>\<^verbatim>\<open>redis.keys(p + "*")\<close>: the keys that begin with \<open>p\<close>\<close>
  "redis_keys p w = (filter (starts_with p) (map fst (redis w)), trace (RedisKeys p) w)"

definition redis_get :: "string \<Rightarrow> world \<Rightarrow> session option \<times> world" where
  "redis_get k w = (map_of (redis w) k, trace (RedisGet k) w)"

definition redis_del :: "string \<Rightarrow> world \<Rightarrow> world" where
  "redis_del k w = trace (RedisDel k) (w\<lparr>redis := filter (\<lambda>kv. fst kv \<noteq> k) (redis w)\<rparr>)"

definition redis_setex :: "string \<Rightarrow> nat \<Rightarrow> session \<Rightarrow> world \<Rightarrow> world" where
  "redis_setex k ttl v w =
     trace (RedisSetex k ttl) (w\<lparr>redis := filter (\<lambda>kv. fst kv \<noteq> k) (redis w) @ [(k, v)]\<rparr>)"

subsection \<open>Prisma\<close>

definition users_findUnique :: "string \<Rightarrow> world \<Rightarrow> user_row option \<times> world" where
  "users_findUnique uid w = (users w uid, trace (UsersFindUnique uid) w)"

definition shops_findMany :: "string list \<Rightarrow> world \<Rightarrow> shop_row list \<times> world" where
  \<comment> \<open>\<^verbatim>\<open>where: {id: {in: ids}}\<close>\<close>
  "shops_findMany ids w =
     (filter (\<lambda>s. shop_id s \<in> set ids) (shops w), trace (ShopsFindMany ids) w)"

definition discount_codes_findUnique :: "string \<Rightarrow> world \<Rightarrow> discount_row option \<times> world" where
  "discount_codes_findUnique c w =
     (discount_codes_table w c, trace (DiscountCodesFindUnique c) w)"

definition orders_findUnique :: "string \<Rightarrow> world \<Rightarrow> order_row option \<times> world" where
  "orders_findUnique oid w =
     (find (\<lambda>r. o_id r = oid) (orders w), trace (OrdersFindUnique oid) w)"

definition set_status :: "string \<Rightarrow> string \<Rightarrow> nat \<Rightarrow> order_row \<Rightarrow> order_row" where
  "set_status oid st t r =
     (if o_id r = oid then r\<lparr>o_status := st, o_updatedAt := t\<rparr> else r)"

definition update_order ::
  "string \<Rightarrow> string \<Rightarrow> nat \<Rightarrow> world \<Rightarrow> (error + order_row) \<times> world" where
  \<comment> \<open>\<^verbatim>\<open>prisma.orders.update\<close> throws when no row has the id\<close>
  "update_order oid st t w =
     (case find (\<lambda>r. o_id r = oid) (orders w) of
        None \<Rightarrow> (Inl (RecordNotFound ''Record to update not found.''), trace (OrdersUpdate oid) w)
      | Some r \<Rightarrow>
          (Inr (set_status oid st t r),
           trace (OrdersUpdate oid) (w\<lparr>orders := map (set_status oid st t) (orders w)\<rparr>)))"

section \<open>Javascript numbers\<close>

definition round_half_even :: "rat \<Rightarrow> int" where
  \<comment> \<open>the nearest integer, the even one of the two on a tie\<close>
  "round_half_even y =
     (let n = \<lfloor>y\<rfloor>; r = y - of_int n
      in if r < 1 / 2 then n else if 1 / 2 < r then n + 1 else if even n then n else n + 1)"

definition ilog2 :: "rat \<Rightarrow> int" where
  \<comment> \<open>for \<open>a > 0\<close>, the exponent \<open>e\<close> with \<open>2^e \<le> a < 2^(e+1)\<close>\<close>
  "ilog2 a =
     (case quotient_of a of
        (p, q) \<Rightarrow> let c = bitlen p - bitlen q in if 2 powi c \<le> a then c else c - 1)"

definition fl :: "rat \<Rightarrow> rat" where
  \<comment> \<open>the double nearest to \<open>x\<close> (binary64: 53 significant bits, least exponent
      \<open>-1074\<close>, ties to even)\<close>
  "fl x =
     (if x = 0 then 0
      else let q = max (ilog2 \<bar>x\<bar> - 52) (- 1074)
           in sgn x * of_int (round_half_even (\<bar>x\<bar> / 2 powi q)) * 2 powi q)"

definition js_add :: "rat \<Rightarrow> rat \<Rightarrow> rat" where
  "js_add a b = fl (a + b)"

definition js_sub :: "rat \<Rightarrow> rat \<Rightarrow> rat" where
  "js_sub a b = fl (a - b)"

definition js_mul :: "rat \<Rightarrow> rat \<Rightarrow> rat" where
  "js_mul a b = fl (a * b)"

definition js_div :: "rat \<Rightarrow> rat \<Rightarrow> rat" where
  "js_div a b = fl (a / b)"

definition toFixed2 :: "rat \<Rightarrow> rat" where
  \<comment> \<open>the number that \<^verbatim>\<open>x.toFixed(2)\<close> writes for the double \<open>x\<close>: the \<open>n / 100\<close> nearest
      to \<open>x\<close>, the larger \<open>n\<close> on a tie, the sign apart\<close>
  "toFixed2 x =
     (if x < 0 then - (of_int \<lfloor>- x * 100 + 1 / 2\<rfloor> / 100)
      else of_int \<lfloor>x * 100 + 1 / 2\<rfloor> / 100)"

definition rnd :: rat where
  \<comment> \<open>half the distance between 1 and the next double\<close>
  "rnd = 1 / 2 ^ 53"

definition tiny :: rat where
  \<comment> \<open>the least normal double\<close>
  "tiny = 1 / 2 ^ 1022"

section \<open>verifyCouponCode\<close>

record coupon_request =
  req_user :: "string option"
  couponCode :: string
  coupon_cart :: "cart_item list option"

definition has_discount :: "string \<Rightarrow> cart_item \<Rightarrow> bool" where
  \<comment> \<open>\<^verbatim>\<open>item.discount_codes?.some((d) => d === discount.id)\<close>\<close>
  "has_discount did item =
     (case discount_codes item of None \<Rightarrow> False | Some ds \<Rightarrow> list_ex (\<lambda>d. d = did) ds)"

definition line_price :: "cart_item \<Rightarrow> rat" where
  "line_price item = js_mul (sale_price item) (of_int (quantity item))"

definition raw_discount :: "discount_row \<Rightarrow> rat \<Rightarrow> rat" where
  "raw_discount d price =
     (if discountType d = ''percentage'' then js_div (js_mul price (discountValue d)) 100
      else if discountType d = ''flat'' then discountValue d
      else 0)"

definition verifyCouponCode ::
  "coupon_request \<Rightarrow> world \<Rightarrow> (error + response) \<times> world" where
  "verifyCouponCode req w =
     (case coupon_cart req of
        None \<Rightarrow> (Inl (ValidationError ''Coupon code and cart are required!''), w)
      | Some c \<Rightarrow>
          if couponCode req = [] \<or> c = []
          then (Inl (ValidationError ''Coupon code and cart are required!''), w)
          else
            (case discount_codes_findUnique (couponCode req) w of
               (None, w1) \<Rightarrow> (Inl (ValidationError ''Coupon code isn't valid!''), w1)
             | (Some d, w1) \<Rightarrow>
                 (case find (has_discount (discount_id d)) c of
                    None \<Rightarrow>
                      (Inr \<lparr>status = 200, body = CouponJson
                          \<lparr>valid = False, discount = 0, r_discountAmount = 0,
                           r_discountedProductId = None, r_discountType = None,
                           r_message = ''No matching product found in the cart for this coupon!''\<rparr>\<rparr>,
                       w1)
                  | Some matchingProduct \<Rightarrow>
                      (let price = line_price matchingProduct;
                           amount = min (raw_discount d price) price
                       in (Inr \<lparr>status = 200, body = CouponJson
                             \<lparr>valid = True, discount = discountValue d,
                              r_discountAmount = toFixed2 amount,
                              r_discountedProductId = Some (item_id matchingProduct),
                              r_discountType = Some (discountType d),
                              r_message = ''Discount applied to 1 eligible product''\<rparr>\<rparr>,
                           sendLog ''success''
                             (''Coupon '' @ couponCode req @ '' verified for user '' @
                                (case req_user req of None \<Rightarrow> ''unknown''
                                 | Some u \<Rightarrow> if u = [] then ''unknown'' else u))
                             w1)))))"

section \<open>updateDeliveryStatus\<close>

definition allowedStatuses :: "string list" where
  "allowedStatuses = [''Ordered'', ''Packed'', ''Shipped'', ''Out for Delivery'', ''Delivered'']"

record status_request =
  param_orderId :: string
  deliveryStatus :: string

definition updateDeliveryStatus ::
  "nat \<Rightarrow> status_request \<Rightarrow> world \<Rightarrow> (error + response) \<times> world" where
  \<comment> \<open>the first argument is the clock, \<^verbatim>\<open>new Date()\<close>\<close>
  "updateDeliveryStatus t req w =
     (if param_orderId req = [] \<or> deliveryStatus req = []
      then (Inr \<lparr>status = 400, body = ErrorJson ''Missing order ID or delivery status.''\<rparr>, w)
      else if deliveryStatus req \<notin> set allowedStatuses
      then (Inl (ValidationError ''Invalid delivery status''), w)
      else
        (case orders_findUnique (param_orderId req) w of
           (None, w1) \<Rightarrow> (Inl (NotFoundError ''Order not found!''), w1)
         | (Some existingOrder, w1) \<Rightarrow>
             (case update_order (param_orderId req) (deliveryStatus req) t w1 of
                (Inl e, w2) \<Rightarrow> (Inl e, w2)
              | (Inr updatedOrder, w2) \<Rightarrow>
                  (Inr \<lparr>status = 200,
                        body = OrderJson ''Delivery status updated successfully.'' updatedOrder\<rparr>,
                   w2))))"

section \<open>createPaymentSession\<close>

record norm_item =
  n_id :: string
  n_quantity :: int
  n_sale_price :: rat
  n_shopId :: string
  n_selectedOptions :: "(string \<times> string) list"

definition normalize_item :: "cart_item \<Rightarrow> norm_item" where
  "normalize_item item =
     \<lparr>n_id = item_id item, n_quantity = quantity item, n_sale_price = sale_price item,
      n_shopId = shopId item,
      n_selectedOptions = (case selectedOptions item of None \<Rightarrow> [] | Some opts \<Rightarrow> opts)\<rparr>"

definition sort_by_id :: "norm_item list \<Rightarrow> error + norm_item list" where
  \<comment> \<open>\<^verbatim>\<open>.sort((a, b) => a.id.localCompare(b.id))\<close>: a string has no method
      \<^verbatim>\<open>localCompare\<close>, so the first comparison throws a TypeError; an array of fewer
      than two elements is returned without any comparison\<close>
  "sort_by_id xs =
     (if length xs < 2 then Inr xs
      else Inl (TypeError ''a.id.localCompare is not a function''))"

definition normalizedCart :: "cart_item list \<Rightarrow> error + norm_item list" where
  \<comment> \<open>the JSON text of the sorted projection; two texts are equal when the lists are\<close>
  "normalizedCart c = sort_by_id (map normalize_item c)"

fun split_on :: "char \<Rightarrow> string \<Rightarrow> string list" where
  "split_on c [] = [[]]"
| "split_on c (x # xs) =
     (if x = c then [] # split_on c xs
      else (case split_on c xs of [] \<Rightarrow> [[x]] | p # ps \<Rightarrow> (x # p) # ps))"

definition second_part :: "string \<Rightarrow> string option" where
  \<comment> \<open>\<^verbatim>\<open>key.split(":")[1]\<close>\<close>
  "second_part key =
     (case split_on CHR '':'' key of a # b # rest \<Rightarrow> Some b | _ \<Rightarrow> None)"

record session_request =
  req_userId :: string
  body_cart :: "cart_item list option"
  selectedAddressId :: "string option"
  body_coupon :: "coupon option"

fun scan_sessions ::
  "string \<Rightarrow> norm_item list \<Rightarrow> string list \<Rightarrow> world \<Rightarrow> (error + response option) \<times> world" where
  "scan_sessions uid nc [] w = (Inr None, w)"
| "scan_sessions uid nc (key # keys) w =
     (case redis_get key w of
        (None, w1) \<Rightarrow> scan_sessions uid nc keys w1
      | (Some sess, w1) \<Rightarrow>
          if userId sess = uid then
            (case normalizedCart (cart sess) of
               Inl e \<Rightarrow> (Inl e, w1)
             | Inr existingCart \<Rightarrow>
                 if existingCart = nc
                 then (Inr (Some \<lparr>status = 200, body = SessionId (second_part key)\<rparr>), w1)
                 else scan_sessions uid nc keys (redis_del key w1))
          else scan_sessions uid nc keys w1)"

definition uniqueShopIds :: "cart_item list \<Rightarrow> string list" where
  \<comment> \<open>\<^verbatim>\<open>[...new Set(cart.map((item) => item.shopId))]\<close>\<close>
  "uniqueShopIds c =
     foldl (\<lambda>acc sid. if sid \<in> set acc then acc else acc @ [sid]) [] (map shopId c)"

definition cart_total :: "cart_item list \<Rightarrow> rat" where
  "cart_total c =
     foldl (\<lambda>total item. js_add total (js_mul (of_int (quantity item)) (sale_price item))) 0 c"

definition truthy :: "string option \<Rightarrow> string option" where
  \<comment> \<open>\<^verbatim>\<open>x || null\<close> on an optional string\<close>
  "truthy x = (case x of None \<Rightarrow> None | Some s \<Rightarrow> if s = [] then None else Some s)"

definition createPaymentSession ::
  "string \<Rightarrow> session_request \<Rightarrow> world \<Rightarrow> (error + response) \<times> world" where
  \<comment> \<open>the first argument is the value of \<^verbatim>\<open>crypto.randomUUID()\<close>\<close>
  "createPaymentSession uuid req w =
     (case body_cart req of
        None \<Rightarrow> (Inl (ValidationError ''Cart is empty or invalid''), w)
      | Some c \<Rightarrow>
          if c = [] then (Inl (ValidationError ''Cart is empty or invalid''), w)
          else
            (case normalizedCart c of
               Inl e \<Rightarrow> (Inl e, w)
             | Inr nc \<Rightarrow>
                 (case redis_keys ''payment-session:'' w of
                    (keys, w1) \<Rightarrow>
                      (case scan_sessions (req_userId req) nc keys w1 of
                         (Inl e, w2) \<Rightarrow> (Inl e, w2)
                       | (Inr (Some r), w2) \<Rightarrow> (Inr r, w2)
                       | (Inr None, w2) \<Rightarrow>
                           (case shops_findMany (uniqueShopIds c) w2 of
                              (found, w3) \<Rightarrow>
                                (let sellerData =
                                       map (\<lambda>s. \<lparr>sd_shopId = shop_id s, sd_sellerId = sellerId s,
                                                 stripeAccountId = stripeId s\<rparr>) found;
                                     sessionData =
                                       \<lparr>userId = req_userId req, cart = c, sellers = sellerData,
                                        totalAmount = cart_total c,
                                        shippingAddressId = truthy (selectedAddressId req),
                                        session_coupon = body_coupon req\<rparr>
                                 in (Inr \<lparr>status = 201, body = SessionId (Some uuid)\<rparr>,
                                     redis_setex (''payment-session: '' @ uuid) 600
                                       sessionData w3)))))))"

section \<open>createOrder\<close>

record event =
  ev_type :: string
  meta_sessionId :: string
  meta_userId :: string

record webhook_request =
  stripe_signature :: "string option"
  rawBody :: string

text \<open>What the handler takes from outside the state: Stripe's verification of a body
  against a signature header under the webhook secret (the message of the error it throws,
  or the event), the clock, and the id the database gives to the \<open>n\<close>-th order.\<close>

record env =
  constructEvent :: "string \<Rightarrow> string \<Rightarrow> string + event"
  clock :: nat
  gen_id :: "nat \<Rightarrow> string"

type_synonym groups = "(string \<times> cart_item list) list"

fun group_push :: "cart_item \<Rightarrow> groups \<Rightarrow> groups" where
  \<comment> \<open>\<^verbatim>\<open>if(!acc[item.shopId]) acc[item.shopId] = []; acc[item.shopId].push(item)\<close> on an
      object that has only own keys, kept in the order of their insertion\<close>
  "group_push item [] = [(shopId item, [item])]"
| "group_push item ((k, v) # acc) =
     (if k = shopId item then (k, v @ [item]) # acc else (k, v) # group_push item acc)"

definition object_prototype_keys :: "string list" where
  \<comment> \<open>the names every object inherits from \<^verbatim>\<open>Object.prototype\<close>: under such a key
      \<^verbatim>\<open>acc[key]\<close> is an inherited function or object, which is truthy and has no
      \<^verbatim>\<open>push\<close>\<close>
  "object_prototype_keys =
     [''constructor'', ''__defineGetter__'', ''__defineSetter__'', ''hasOwnProperty'',
      ''__lookupGetter__'', ''__lookupSetter__'', ''isPrototypeOf'', ''propertyIsEnumerable'',
      ''toString'', ''valueOf'', ''__proto__'', ''toLocaleString'']"

fun reduce_groups :: "groups \<Rightarrow> cart_item list \<Rightarrow> error + groups" where
  "reduce_groups acc [] = Inr acc"
| "reduce_groups acc (item # rest) =
     (if shopId item \<in> set object_prototype_keys
      then Inl (TypeError ''acc[item.shopId].push is not a function'')
      else reduce_groups (group_push item acc) rest)"

definition shopGrouped :: "cart_item list \<Rightarrow> error + groups" where
  \<comment> \<open>\<^verbatim>\<open>cart.reduce(..., {})\<close>\<close>
  "shopGrouped c = reduce_groups [] c"

definition decimal_value :: "string \<Rightarrow> int" where
  "decimal_value s = foldl (\<lambda>n c. 10 * n + (of_char c - 48)) 0 s"

definition is_array_index :: "string \<Rightarrow> bool" where
  \<comment> \<open>the canonical decimal text of an integer from 0 to \<open>2^32 - 2\<close>\<close>
  "is_array_index s =
     (s \<noteq> [] \<and> list_all (\<lambda>c. c \<in> set ''0123456789'') s \<and>
      (s = ''0'' \<or> hd s \<noteq> CHR ''0'') \<and> decimal_value s < 4294967295)"

definition for_in :: "groups \<Rightarrow> groups" where
  \<comment> \<open>the order in which \<^verbatim>\<open>for ... in\<close> and \<^verbatim>\<open>Object.keys\<close> visit the keys: the array
      indices by ascending value, then the other keys in the order of their insertion\<close>
  "for_in g =
     sort_key (\<lambda>kv. decimal_value (fst kv)) (filter (\<lambda>kv. is_array_index (fst kv)) g) @
     filter (\<lambda>kv. \<not> is_array_index (fst kv)) g"

definition items_total :: "cart_item list \<Rightarrow> rat" where
  "items_total orderItems =
     foldl (\<lambda>sum p. js_add sum (js_mul (of_int (quantity p)) (sale_price p))) 0 orderItems"

definition coupon_discount :: "coupon \<Rightarrow> cart_item \<Rightarrow> rat" where
  "coupon_discount cp discountedItem =
     (if discountPercent cp > 0
      then js_div
             (js_mul (js_mul (sale_price discountedItem) (of_int (quantity discountedItem)))
                (discountPercent cp))
             100
      else discountAmount cp)"

definition apply_coupon :: "coupon option \<Rightarrow> cart_item list \<Rightarrow> rat \<Rightarrow> rat" where
  "apply_coupon c orderItems orderTotal =
     (case c of
        None \<Rightarrow> orderTotal
      | Some cp \<Rightarrow>
          if discountedProductId cp \<noteq> [] \<and>
             list_ex (\<lambda>item. item_id item = discountedProductId cp) orderItems
          then (case find (\<lambda>item. item_id item = discountedProductId cp) orderItems of
                  None \<Rightarrow> orderTotal
                | Some discountedItem \<Rightarrow>
                    js_sub orderTotal (coupon_discount cp discountedItem))
          else orderTotal)"

definition order_line :: "cart_item \<Rightarrow> order_item" where
  "order_line item =
     \<lparr>oi_productId = item_id item, oi_quantity = quantity item, oi_price = sale_price item,
      oi_selectedOptions = selectedOptions item\<rparr>"

definition new_order :: "env \<Rightarrow> event \<Rightarrow> session \<Rightarrow> string \<Rightarrow> cart_item list \<Rightarrow> nat \<Rightarrow> order_row" where
  "new_order en ev sess sid orderItems n =
     \<lparr>o_id = gen_id en n, o_userId = meta_userId ev, o_shopId = sid,
      o_total = apply_coupon (session_coupon sess) orderItems (items_total orderItems),
      o_status = ''Paid'',
      o_shippingAddressId = truthy (shippingAddressId sess),
      o_couponCode =
        (case session_coupon sess of None \<Rightarrow> None | Some cp \<Rightarrow> truthy (Some (code cp))),
      o_discountAmount =
        (case session_coupon sess of None \<Rightarrow> 0 | Some cp \<Rightarrow> discountAmount cp),
      o_items = map order_line orderItems,
      o_updatedAt = clock en\<rparr>"

definition orders_create :: "order_row \<Rightarrow> world \<Rightarrow> world" where
  "orders_create r w = trace (OrdersCreate (o_id r)) (w\<lparr>orders := orders w @ [r]\<rparr>)"

definition update_product :: "string \<Rightarrow> int \<Rightarrow> world \<Rightarrow> error option \<times> world" where
  \<comment> \<open>\<^verbatim>\<open>prisma.products.update\<close> throws when no product has the id\<close>
  "update_product pid q w =
     (case products w pid of
        None \<Rightarrow> (Some (RecordNotFound ''Record to update not found.''), trace (ProductsUpdate pid) w)
      | Some p \<Rightarrow>
          (None, trace (ProductsUpdate pid)
             (w\<lparr>products := (products w)(pid \<mapsto>
                   p\<lparr>stock := stock p - q, totalSales := totalSales p + q\<rparr>)\<rparr>)))"

definition upsert_productAnalytics :: "nat \<Rightarrow> string \<Rightarrow> string \<Rightarrow> int \<Rightarrow> world \<Rightarrow> world" where
  "upsert_productAnalytics t pid sid q w =
     trace (ProductAnalyticsUpsert pid)
       (w\<lparr>productAnalytics := (productAnalytics w)(pid \<mapsto>
            (case productAnalytics w pid of
               None \<Rightarrow> \<lparr>pa_shopId = sid, purchases = q, lastViewedAt = t\<rparr>
             | Some a \<Rightarrow> a\<lparr>purchases := purchases a + q\<rparr>))\<rparr>)"

definition find_userAnalytics :: "string \<Rightarrow> world \<Rightarrow> user_analytics option \<times> world" where
  "find_userAnalytics uid w = (userAnalytics w uid, trace (UserAnalyticsFindUnique uid) w)"

definition update_userAnalytics :: "string \<Rightarrow> nat \<Rightarrow> user_action list \<Rightarrow> world \<Rightarrow> world" where
  "update_userAnalytics uid t acts w =
     trace (UserAnalyticsUpdate uid)
       (w\<lparr>userAnalytics := (userAnalytics w)(uid \<mapsto> \<lparr>lastVisited = t, actions = Some acts\<rparr>)\<rparr>)"

definition create_userAnalytics :: "string \<Rightarrow> nat \<Rightarrow> user_action list \<Rightarrow> world \<Rightarrow> world" where
  "create_userAnalytics uid t acts w =
     trace (UserAnalyticsCreate uid)
       (w\<lparr>userAnalytics := (userAnalytics w)(uid \<mapsto> \<lparr>lastVisited = t, actions = Some acts\<rparr>)\<rparr>)"

definition log_purchase :: "nat \<Rightarrow> string \<Rightarrow> string \<Rightarrow> string \<Rightarrow> world \<Rightarrow> world" where
  "log_purchase t uid pid sid w =
     (case find_userAnalytics uid w of
        (existingAnalytics, w1) \<Rightarrow>
          (let newAction = \<lparr>ua_productId = pid, ua_shopId = sid, ua_action = ''purchase'',
                            timeStamp = t\<rparr>;
               currentActions =
                 (case existingAnalytics of
                    None \<Rightarrow> []
                  | Some a \<Rightarrow> (case actions a of None \<Rightarrow> [] | Some acts \<Rightarrow> acts))
           in case existingAnalytics of
                Some a \<Rightarrow> update_userAnalytics uid t (currentActions @ [newAction]) w1
              | None \<Rightarrow> create_userAnalytics uid t [newAction] w1))"

fun update_items :: "nat \<Rightarrow> string \<Rightarrow> string \<Rightarrow> cart_item list \<Rightarrow> world \<Rightarrow> error option \<times> world" where
  "update_items t uid sid [] w = (None, w)"
| "update_items t uid sid (item # rest) w =
     (case update_product (item_id item) (quantity item) w of
        (Some e, w1) \<Rightarrow> (Some e, w1)
      | (None, w1) \<Rightarrow>
          update_items t uid sid rest
            (log_purchase t uid (item_id item) sid
               (upsert_productAnalytics t (item_id item) sid (quantity item) w1)))"

definition sendEmail :: "email \<Rightarrow> world \<Rightarrow> world" where
  "sendEmail m w = trace SendEmail (w\<lparr>emails := emails w @ [m]\<rparr>)"

definition notifications_create :: "notification \<Rightarrow> world \<Rightarrow> world" where
  "notifications_create n w =
     trace (NotificationsCreate (receiverId n)) (w\<lparr>notifications := notifications w @ [n]\<rparr>)"

definition productTitle :: "groups \<Rightarrow> string \<Rightarrow> string" where
  \<comment> \<open>\<^verbatim>\<open>shopGrouped[shop.id][0]?.title || "new item"\<close>; the shops come from a query
      for the keys of \<open>shopGrouped\<close>, so the group is there\<close>
  "productTitle all sid =
     (case map_of all sid of
        Some (firstProduct # rest) \<Rightarrow>
          (case truthy (title firstProduct) of None \<Rightarrow> ''new item'' | Some t \<Rightarrow> t)
      | _ \<Rightarrow> ''new item'')"

fun notify_sellers :: "string \<Rightarrow> string \<Rightarrow> groups \<Rightarrow> shop_row list \<Rightarrow> world \<Rightarrow> world" where
  "notify_sellers uid oid all [] w = w"
| "notify_sellers uid oid all (shop # rest) w =
     notify_sellers uid oid all rest
       (notifications_create
          \<lparr>n_title = ''New Order Received'',
           n_message = ''A customer just ordered '' @ productTitle all (shop_id shop) @
                       '' from your shop.'',
           creatorId = uid, receiverId = sellerId shop,
           redirect_link = ''https://TradeSphere.com/order/'' @ oid\<rparr> w)"

definition session_key :: "event \<Rightarrow> string" where
  "session_key ev = ''payment-session:'' @ meta_sessionId ev"

definition process_group ::
  "env \<Rightarrow> event \<Rightarrow> session \<Rightarrow> user_row option \<Rightarrow> groups \<Rightarrow> string \<Rightarrow> cart_item list \<Rightarrow> world
     \<Rightarrow> error option \<times> world" where
  \<comment> \<open>the body of \<^verbatim>\<open>for(const shopId in shopGrouped)\<close>\<close>
  "process_group en ev sess usr all sid orderItems w =
     (let ord = new_order en ev sess sid orderItems (length (orders w))
      in case update_items (clock en) (meta_userId ev) sid orderItems (orders_create ord w) of
           (Some e, w2) \<Rightarrow> (Some e, w2)
         | (None, w2) \<Rightarrow>
             (let w3 = sendEmail
                    \<lparr>e_to = map_option user_email usr,
                     e_subject = ''Your TradeSphere Order Confirmation'',
                     e_template = ''order-confirmation'',
                     e_name = map_option user_name usr,
                     e_cart = cart sess,
                     e_totalAmount =
                       (case session_coupon sess of
                          None \<Rightarrow> totalAmount sess
                        | Some cp \<Rightarrow>
                            if discountAmount cp \<noteq> 0
                            then js_sub (totalAmount sess) (discountAmount cp)
                            else totalAmount sess),
                     trackingUrl = ''http://localhost:3002/order/'' @ o_id ord\<rparr> w2
              in case shops_findMany (map fst (for_in all)) w3 of
                   (sellerShops, w4) \<Rightarrow>
                     (None,
                      redis_del (session_key ev)
                        (notifications_create
                           \<lparr>n_title = ''Platform Order Alert'',
                            n_message = ''A new order was placed by '' @
                              (case usr of None \<Rightarrow> ''undefined'' | Some u \<Rightarrow> user_name u),
                            creatorId = meta_userId ev, receiverId = ''admin'',
                            redirect_link = ''https://TradeSphere.com/order/'' @
                              meta_sessionId ev\<rparr>
                           (notify_sellers (meta_userId ev) (o_id ord) all sellerShops w4)))))"

fun process_groups ::
  "env \<Rightarrow> event \<Rightarrow> session \<Rightarrow> user_row option \<Rightarrow> groups \<Rightarrow> groups \<Rightarrow> world
     \<Rightarrow> error option \<times> world" where
  "process_groups en ev sess usr all [] w = (None, w)"
| "process_groups en ev sess usr all ((sid, orderItems) # rest) w =
     (case process_group en ev sess usr all sid orderItems w of
        (Some e, w1) \<Rightarrow> (Some e, w1)
      | (None, w1) \<Rightarrow> process_groups en ev sess usr all rest w1)"

definition handle_event :: "env \<Rightarrow> event \<Rightarrow> world \<Rightarrow> (error + response) \<times> world" where
  \<comment> \<open>the \<^verbatim>\<open>try\<close> block once the event is verified\<close>
  "handle_event en ev w =
     (if ev_type ev = ''payment_intent.succeeded'' then
        (case redis_get (session_key ev) w of
           (None, w1) \<Rightarrow>
             (Inr \<lparr>status = 200, body = Text ''No session found, skipping order creation''\<rparr>, w1)
         | (Some sess, w1) \<Rightarrow>
             (case users_findUnique (meta_userId ev) w1 of
                (usr, w2) \<Rightarrow>
                  (case shopGrouped (cart sess) of
                     Inl e \<Rightarrow> (Inl e, w2)
                   | Inr all \<Rightarrow>
                       (case process_groups en ev sess usr all (for_in all) w2 of
                          (Some e, w3) \<Rightarrow> (Inl e, w3)
                        | (None, w3) \<Rightarrow>
                            (Inr \<lparr>status = 200, body = Received\<rparr>,
                             sendLog ''success''
                               ''Stripe webhook processed for session unknown'' w3)))))
      else (Inr \<lparr>status = 200, body = Received\<rparr>,
            sendLog ''success'' ''Stripe webhook processed for session unknown'' w))"

definition createOrder :: "env \<Rightarrow> webhook_request \<Rightarrow> world \<Rightarrow> (error + response) \<times> world" where
  "createOrder en req w =
     (case truthy (stripe_signature req) of
        None \<Rightarrow> (Inr \<lparr>status = 400, body = Text ''Missing Stripe signature''\<rparr>, w)
      | Some stripeSignature \<Rightarrow>
          (case constructEvent en (rawBody req) stripeSignature of
             Inl msg \<Rightarrow> (Inr \<lparr>status = 400, body = Text (''Webhook Error: '' @ msg)\<rparr>, w)
           | Inr ev \<Rightarrow>
               (case handle_event en ev w of
                  (Inl e, w1) \<Rightarrow>
                    (Inl e, sendLog ''error''
                              (''Error in createOrder webhook: '' @ error_message e) w1)
                | (Inr r, w1) \<Rightarrow> (Inr r, w1))))"

section \<open>Reading results, and the inputs used in the examples\<close>

definition http_status :: "error + response \<Rightarrow> nat option" where
  "http_status r = (case r of Inl e \<Rightarrow> None | Inr x \<Rightarrow> Some (status x))"

definition coupon_amount :: "error + response \<Rightarrow> rat option" where
  \<comment> \<open>the \<^verbatim>\<open>discountAmount\<close> of an answer with \<^verbatim>\<open>valid: true\<close>\<close>
  "coupon_amount r =
     (case r of
        Inl e \<Rightarrow> None
      | Inr x \<Rightarrow>
          (case body x of
             CouponJson cr \<Rightarrow> if valid cr then Some (r_discountAmount cr) else None
           | _ \<Rightarrow> None))"

definition returns_valid_false :: "error + response \<Rightarrow> bool" where
  \<comment> \<open>an answer sent with \<^verbatim>\<open>valid: false\<close>, as opposed to an error passed to \<^verbatim>\<open>next\<close>\<close>
  "returns_valid_false r =
     (case r of
        Inl e \<Rightarrow> False
      | Inr x \<Rightarrow> (case body x of CouponJson cr \<Rightarrow> \<not> valid cr | _ \<Rightarrow> False))"

definition unchanged :: "world \<Rightarrow> world \<Rightarrow> bool" where
  \<comment> \<open>the cache and every table are the same; the log and the call trace may differ\<close>
  "unchanged w w' =
     (redis w' = redis w \<and> users w' = users w \<and> shops w' = shops w \<and>
      discount_codes_table w' = discount_codes_table w \<and> orders w' = orders w \<and>
      products w' = products w \<and> productAnalytics w' = productAnalytics w \<and>
      userAnalytics w' = userAnalytics w \<and> notifications w' = notifications w \<and>
      emails w' = emails w)"

definition spec_statuses :: "string list" where
  \<comment> \<open>the sequence of statuses as the specification lists it\<close>
  "spec_statuses = [''Paid'', ''Packed'', ''Shipped'', ''Out for Delivery'', ''Delivered'']"

definition empty_world :: world where
  "empty_world =
     \<lparr>redis = [], users = Map.empty, shops = [], discount_codes_table = Map.empty,
      orders = [], products = Map.empty, productAnalytics = Map.empty,
      userAnalytics = Map.empty, notifications = [], emails = [], logs = [], calls = []\<rparr>"

definition mk_item :: "string \<Rightarrow> int \<Rightarrow> rat \<Rightarrow> string \<Rightarrow> cart_item" where
  "mk_item i q p s =
     \<lparr>item_id = i, quantity = q, sale_price = p, shopId = s, selectedOptions = None,
      title = None, discount_codes = None\<rparr>"

definition coupon_world :: "string \<Rightarrow> rat \<Rightarrow> world" where
  \<comment> \<open>one discount code, \<open>SAVE\<close>, of the given type and value\<close>
  "coupon_world ty v =
     empty_world\<lparr>discount_codes_table :=
       [''SAVE'' \<mapsto> \<lparr>discount_id = ''d1'', discountCode = ''SAVE'', discountType = ty,
                      discountValue = v\<rparr>]\<rparr>"

definition coupon_line :: "rat \<Rightarrow> cart_item" where
  "coupon_line p = (mk_item ''p1'' 1 p ''A'')\<lparr>discount_codes := Some [''d1'']\<rparr>"

definition coupon_req :: "string \<Rightarrow> rat \<Rightarrow> coupon_request" where
  "coupon_req c p = \<lparr>req_user = Some ''u'', couponCode = c, coupon_cart = Some [coupon_line p]\<rparr>"

definition delivered_world :: world where
  "delivered_world =
     empty_world\<lparr>orders :=
       [\<lparr>o_id = ''o1'', o_userId = ''u'', o_shopId = ''A'', o_total = 20,
         o_status = ''Delivered'', o_shippingAddressId = None, o_couponCode = None,
         o_discountAmount = 0, o_items = [], o_updatedAt = 0\<rparr>]\<rparr>"

definition demo_event :: "string \<Rightarrow> event" where
  "demo_event ty = \<lparr>ev_type = ty, meta_sessionId = ''X'', meta_userId = ''u''\<rparr>"

definition demo_env :: "string \<Rightarrow> env" where
  \<comment> \<open>the signature \<open>good\<close> verifies, to an event of the given type; any other fails\<close>
  "demo_env ty =
     \<lparr>constructEvent = (\<lambda>b sg. if sg = ''good'' then Inr (demo_event ty)
                               else Inl ''No signatures found matching the expected signature''),
      clock = 7, gen_id = (\<lambda>n. replicate (Suc n) CHR ''o'')\<rparr>"

definition signed_by :: "string \<Rightarrow> webhook_request" where
  "signed_by sg = \<lparr>stripe_signature = Some sg, rawBody = ''{}''\<rparr>"

definition key_absent :: "string \<Rightarrow> world \<Rightarrow> bool" where
  \<comment> \<open>the cache holds nothing under the key\<close>
  "key_absent k w = (k \<notin> fst ` set (redis w))"

definition two_shop_session :: session where
  \<comment> \<open>two of a product at 10 from shop A, one of a product at 25 from shop B\<close>
  "two_shop_session =
     \<lparr>userId = ''u'', cart = [mk_item ''p1'' 2 10 ''A'', mk_item ''p2'' 1 25 ''B''],
      sellers = [], totalAmount = 45, shippingAddressId = None, session_coupon = None\<rparr>"

definition shop_world :: "session \<Rightarrow> world" where
  \<comment> \<open>the session under the key of \<open>demo_event\<close>; products p1 and p2; shops A and B\<close>
  "shop_world sess =
     empty_world
       \<lparr>redis := [(''payment-session:X'', sess)],
        users := [''u'' \<mapsto> \<lparr>user_name = ''Uma'', user_email = ''uma@example.org''\<rparr>],
        shops := [\<lparr>shop_id = ''A'', sellerId = ''sa'', shop_name = ''a'', stripeId = None\<rparr>,
                  \<lparr>shop_id = ''B'', sellerId = ''sb'', shop_name = ''b'', stripeId = None\<rparr>],
        products := [''p1'' \<mapsto> \<lparr>stock = 5, totalSales = 0\<rparr>,
                     ''p2'' \<mapsto> \<lparr>stock = 5, totalSales = 0\<rparr>]\<rparr>"




definition succeeded :: string where
  "succeeded = ''payment_intent.succeeded''"

definition flat50_session :: session where
  \<comment> \<open>one line of 30 in shop A, with a cached coupon of a flat 50 on that product\<close>
  "flat50_session =
     \<lparr>userId = ''u'', cart = [mk_item ''p1'' 1 30 ''A''], sellers = [], totalAmount = 30,
      shippingAddressId = None,
      session_coupon = Some \<lparr>code = ''SAVE'', discountedProductId = ''p1'',
                              discountPercent = 0, discountAmount = 50\<rparr>\<rparr>"

definition cart_request :: "cart_item list \<Rightarrow> session_request" where
  "cart_request c =
     \<lparr>req_userId = ''u'', body_cart = Some c, selectedAddressId = None, body_coupon = None\<rparr>"

section \<open>Rounding in double arithmetic\<close>

lemma round_half_even_err: "\<bar>of_int (round_half_even y) - y\<bar> \<le> 1 / 2"
proof -
  have "of_int \<lfloor>y\<rfloor> \<le> y" "y < of_int \<lfloor>y\<rfloor> + 1"
    by linarith+
  then show ?thesis
    by (auto simp: round_half_even_def Let_def)
qed


lemma pow2_nat_powi: "0 \<le> k \<Longrightarrow> (2::rat) ^ nat k = 2 powi k"
  by (simp add: power_int_def)

lemma ilog2_le:
  assumes "0 < a"
  shows "2 powi (ilog2 a) \<le> a"
proof -
  obtain p q where pq: "quotient_of a = (p, q)"
    by (cases "quotient_of a")
  then have q: "0 < q" and a: "a = of_int p / of_int q"
    by (simp_all add: quotient_of_denom_pos quotient_of_div)
  with assms have p: "0 < p"
    by (simp add: zero_less_divide_iff)
  let ?c = "bitlen p - bitlen q"
  show ?thesis
  proof (cases "2 powi ?c \<le> a")
    case True
    then show ?thesis by (simp add: ilog2_def pq)
  next
    case False
    from bitlen_bounds [OF p] have lo: "2 ^ nat (bitlen p - 1) \<le> p" by simp
    from bitlen_bounds [OF q] have hi: "q < 2 ^ nat (bitlen q)" by simp
    from p have bp: "1 \<le> bitlen p"
      using bitlen_eq_zero_iff [of p] bitlen_nonneg [of p] by linarith
    have "(2::rat) powi (bitlen p - 1) = of_int (2 ^ nat (bitlen p - 1))"
      using bp pow2_nat_powi [of "bitlen p - 1"] by simp
    also have "\<dots> \<le> of_int p"
      using lo by (simp only: of_int_le_iff)
    finally have 1: "(2::rat) powi (bitlen p - 1) \<le> of_int p" .
    have "(of_int q :: rat) \<le> of_int (2 ^ nat (bitlen q))"
      using hi by (simp only: of_int_le_iff)
    also have "\<dots> = 2 powi (bitlen q)"
      using bitlen_nonneg [of q] pow2_nat_powi [of "bitlen q"] by simp
    finally have 2: "(of_int q :: rat) \<le> 2 powi (bitlen q)" .
    have "?c - 1 = (bitlen p - 1) - bitlen q" by simp
    moreover have "(2::rat) powi ((bitlen p - 1) - bitlen q) =
        2 powi (bitlen p - 1) / 2 powi (bitlen q)"
      by (rule power_int_diff) simp
    ultimately have "(2::rat) powi (?c - 1) = 2 powi (bitlen p - 1) / 2 powi (bitlen q)"
      by (simp only:)
    also have "\<dots> \<le> of_int p / of_int q"
      using 1 2 p q by (intro frac_le) simp_all
    finally have "(2::rat) powi (?c - 1) \<le> a"
      unfolding a [symmetric] .
    moreover have "ilog2 a = ?c - 1"
      using False by (simp add: ilog2_def pq)
    ultimately show ?thesis by simp
  qed
qed

lemma fl_err: "\<bar>fl x - x\<bar> \<le> \<bar>x\<bar> / 2 ^ 53 + 1 / 2 ^ 1075"
proof (cases "x = 0")
  case True
  then show ?thesis by (simp add: fl_def)
next
  case False
  define a where "a = \<bar>x\<bar>"
  define q where "q = max (ilog2 a - 52) (- 1074)"
  define y where "y = a / 2 powi q"
  define m where "m = round_half_even y"
  from False have a: "0 < a" by (simp add: a_def)
  have pq: "(0::rat) < 2 powi q" by simp
  have f: "fl x = sgn x * of_int m * 2 powi q"
    using False by (simp add: fl_def Let_def a_def q_def y_def m_def)
  have x: "x = sgn x * (y * 2 powi q)"
    using pq by (simp add: y_def a_def sgn_mult_abs)
  have "fl x - x = sgn x * ((of_int m - y) * 2 powi q)"
    by (subst f, subst (2) x) (simp add: algebra_simps)
  then have "\<bar>fl x - x\<bar> = \<bar>of_int m - y\<bar> * 2 powi q"
    using False by (simp add: abs_mult abs_sgn_eq)
  also have "\<dots> \<le> 1 / 2 * 2 powi q"
    using round_half_even_err [of y] pq unfolding m_def
    by (intro mult_right_mono) simp_all
  finally have e: "\<bar>fl x - x\<bar> \<le> 2 powi q / 2" by simp
  show ?thesis
  proof (cases "ilog2 a - 52 \<le> - 1074")
    case True
    then have "q = - 1074" by (simp add: q_def)
    then have "(2::rat) powi q / 2 = 1 / 2 ^ 1075"
      by (simp add: power_int_minus field_simps)
    moreover have "0 \<le> \<bar>x\<bar> / 2 ^ 53" by simp
    ultimately show ?thesis
      using e by linarith
  next
    case False
    then have "q = ilog2 a - 52" by (simp add: q_def)
    then have "(2::rat) powi q / 2 = 2 powi (ilog2 a) / 2 ^ 53"
      by (simp add: power_int_diff)
    also have "\<dots> \<le> a / 2 ^ 53"
      using ilog2_le [OF a] by (simp add: divide_right_mono)
    finally have "(2::rat) powi q / 2 \<le> \<bar>x\<bar> / 2 ^ 53"
      unfolding a_def .
    moreover have "(0::rat) \<le> 1 / 2 ^ 1075" by simp
    ultimately show ?thesis
      using e by linarith
  qed
qed


lemma toFixed2_cents_near:
  "\<exists>n::int. toFixed2 x = of_int n / 100 \<and> \<bar>of_int n / 100 - x\<bar> \<le> 1 / 200"
proof (cases "x < 0")
  case True
  define n where "n = \<lfloor>- x * 100 + 1 / 2\<rfloor>"
  have "of_int n \<le> - x * 100 + 1 / 2" "- x * 100 + 1 / 2 < of_int n + 1"
    unfolding n_def by linarith+
  then have "\<bar>- (of_int n :: rat) / 100 - x\<bar> \<le> 1 / 200"
    by linarith
  then have "\<bar>of_int (- n) / 100 - x\<bar> \<le> 1 / 200"
    by simp
  moreover have "toFixed2 x = of_int (- n) / 100"
    using True by (simp add: toFixed2_def n_def)
  ultimately show ?thesis by blast
next
  case False
  define n where "n = \<lfloor>x * 100 + 1 / 2\<rfloor>"
  have "of_int n \<le> x * 100 + 1 / 2" "x * 100 + 1 / 2 < of_int n + 1"
    unfolding n_def by linarith+
  then have "\<bar>of_int n / 100 - x\<bar> \<le> 1 / 200"
    by linarith
  moreover have "toFixed2 x = of_int n / 100"
    using False by (simp add: toFixed2_def n_def)
  ultimately show ?thesis by blast
qed



text \<open>Known doubles: the text 0.1; 0.1 + 0.2; ties go to the even significand; and
  \<open>toFixed(2)\<close> takes a tie away from zero.\<close>

lemma fl_examples:
  "fl (1 / 10) = 3602879701896397 / 36028797018963968"
  "js_add (fl (1 / 10)) (fl (2 / 10)) = 1351079888211149 / 4503599627370496"
  "js_add (2 ^ 53) 1 = 2 ^ 53"
  "js_add (2 ^ 53 + 2) 1 = 2 ^ 53 + 4"
  "fl (- (1 / 3)) = - (6004799503160661 / 18014398509481984)"
  by code_simp+

lemma toFixed2_examples:
  "toFixed2 (1 / 8) = 13 / 100"
  "toFixed2 (- (1 / 8)) = - (13 / 100)"
  "toFixed2 (fl (1005 / 1000)) = 1"
  "toFixed2 (14985 / 10000) = 150 / 100"
  by code_simp+

lemma rnd_nonneg: "0 \<le> rnd" and tiny_nonneg: "0 \<le> tiny"
  by (simp_all add: rnd_def tiny_def)

lemma fl_err': "\<bar>fl x - x\<bar> \<le> rnd * (\<bar>x\<bar> + tiny)"
proof -
  have "(1::rat) / 2 ^ 1075 = (1 / 2 ^ 53) * (1 / 2 ^ 1022)"
    by simp
  with fl_err [of x] show ?thesis
    unfolding rnd_def tiny_def by (simp only: distrib_left) simp
qed



lemma tiny_le_one: "tiny \<le> 1"
  by (simp add: tiny_def)

lemma tiny_times_le_one:
  assumes "\<bar>v\<bar> \<le> 2 ^ 500"
  shows "tiny * \<bar>v\<bar> \<le> 1"
proof -
  have "tiny * \<bar>v\<bar> \<le> tiny * 2 ^ 500"
    using assms tiny_nonneg by (rule mult_left_mono)
  also have "\<dots> \<le> 1"
    by (simp add: tiny_def)
  finally show ?thesis .
qed

lemma price_err: "\<bar>fl p - p\<bar> \<le> (1 + \<bar>p\<bar>) / 2 ^ 50"
proof -
  have "\<bar>fl p - p\<bar> \<le> rnd * (\<bar>p\<bar> + tiny)"
    by (rule fl_err')
  also have "\<dots> \<le> rnd * (\<bar>p\<bar> + 1)"
    using tiny_le_one rnd_nonneg by (intro mult_left_mono) simp_all
  also have "\<dots> \<le> (1 + \<bar>p\<bar>) / 2 ^ 50"
    by (simp add: rnd_def)
  finally show ?thesis .
qed

lemma percent_err:
  assumes v: "\<bar>v\<bar> \<le> 2 ^ 500"
  shows "\<bar>js_div (js_mul (fl p) v) 100 - p * v / 100\<bar> \<le> (1 + \<bar>p * v / 100\<bar>) / 2 ^ 50"
proof -
  define P where "P = fl p"
  define x1 where "x1 = P * v"
  define y1 where "y1 = fl x1"
  define x2 where "x2 = y1 / 100"
  define PV where "PV = \<bar>p * v\<bar>"
  define KV where "KV = tiny * \<bar>v\<bar>"
  have PV: "0 \<le> PV" by (simp add: PV_def)
  have KV: "KV \<le> 1" unfolding KV_def by (rule tiny_times_le_one [OF v])
  have e0: "\<bar>P - p\<bar> \<le> rnd * (\<bar>p\<bar> + tiny)"
    unfolding P_def by (rule fl_err')
  have "\<bar>x1 - p * v\<bar> = \<bar>P - p\<bar> * \<bar>v\<bar>"
    by (simp add: x1_def abs_mult [symmetric] algebra_simps)
  also have "\<dots> \<le> rnd * (\<bar>p\<bar> + tiny) * \<bar>v\<bar>"
    using e0 by (intro mult_right_mono) simp_all
  also have "\<dots> = rnd * (PV + KV)"
    by (simp add: PV_def KV_def abs_mult algebra_simps)
  finally have a2: "\<bar>x1 - p * v\<bar> \<le> rnd * (PV + KV)" .
  have a4: "\<bar>y1 - x1\<bar> \<le> rnd * (\<bar>x1\<bar> + tiny)"
    unfolding y1_def by (rule fl_err')
  have a5: "\<bar>fl x2 - x2\<bar> \<le> rnd * (\<bar>x2\<bar> + tiny)"
    by (rule fl_err')
  have d: "js_div (js_mul (fl p) v) 100 = fl x2"
    by (simp add: js_div_def js_mul_def x2_def y1_def x1_def P_def)
  have pv: "\<bar>p * v / 100\<bar> = PV / 100"
    by (simp add: PV_def)
  have x2: "x2 - p * v / 100 = (y1 - p * v) / 100"
    by (simp add: x2_def diff_divide_distrib)
  have t1: "tiny \<le> 1" by (rule tiny_le_one)
  have t0: "0 \<le> tiny" by (rule tiny_nonneg)
  have k0: "0 \<le> KV" unfolding KV_def using tiny_nonneg by simp
  define A2 where "A2 = \<bar>x1 - p * v\<bar>"
  define A4 where "A4 = \<bar>y1 - x1\<bar>"
  define A5 where "A5 = \<bar>fl x2 - x2\<bar>"
  define X1 where "X1 = \<bar>x1\<bar>"
  define Y1 where "Y1 = \<bar>y1\<bar>"
  define R where "R = \<bar>fl x2 - p * v / 100\<bar>"
  have b1: "X1 \<le> PV + A2"
    unfolding X1_def PV_def A2_def by linarith
  have b3: "Y1 \<le> PV + A2 + A4"
    unfolding Y1_def PV_def A2_def A4_def by linarith
  have "\<bar>fl x2 - p * v / 100\<bar> \<le> \<bar>fl x2 - x2\<bar> + \<bar>x2 - p * v / 100\<bar>"
    by linarith
  also have "\<bar>x2 - p * v / 100\<bar> = \<bar>y1 - p * v\<bar> / 100"
    unfolding x2 by simp
  also have "\<bar>y1 - p * v\<bar> \<le> A2 + A4"
    unfolding A2_def A4_def by linarith
  finally have "R \<le> A5 + (A2 + A4) / 100"
    unfolding R_def A5_def by simp
  then have b5: "100 * R \<le> 100 * A5 + (A2 + A4)"
    by (simp add: field_simps)
  have c2: "A2 * 2 ^ 53 \<le> PV + KV"
    using a2 unfolding A2_def rnd_def by (simp add: field_simps)
  have c4: "A4 * 2 ^ 53 \<le> X1 + tiny"
    using a4 unfolding A4_def X1_def rnd_def by (simp add: field_simps)
  have "\<bar>x2\<bar> = Y1 / 100"
    by (simp add: x2_def Y1_def)
  then have "A5 * 2 ^ 53 \<le> Y1 / 100 + tiny"
    using a5 unfolding A5_def rnd_def by (simp add: field_simps)
  then have c5: "A5 * (100 * 2 ^ 53) \<le> Y1 + 100 * tiny"
    by (simp add: field_simps)
  have "R * (100 * 2 ^ 50) \<le> 100 + PV"
    using b1 b3 b5 c2 c4 c5 PV KV k0 t0 t1 by simp
  then have "R \<le> (100 + PV) / (100 * 2 ^ 50)"
    by (simp add: field_simps)
  then show ?thesis
    unfolding d pv R_def by (simp add: field_simps)
qed

lemma min_err:
  fixes a b c d e :: rat
  shows "\<bar>a - c\<bar> \<le> e \<Longrightarrow> \<bar>b - d\<bar> \<le> e \<Longrightarrow> \<bar>min a b - min c d\<bar> \<le> e"
  by linarith

section \<open>Coupon verification\<close>

text \<open>
  C4 (amended).  When the code exists and a cart line carries the coupon, the answer has
  \<open>valid = true\<close> and its \<open>discountAmount\<close> is a whole number of cents (it is sent as
  \<open>discountAmount.toFixed(2)\<close>) that lies within half a cent, and the rounding error of
  the double arithmetic, of \<open>min(d, linePrice)\<close>, where \<open>linePrice = quantity * salePrice\<close>
  of the first matching line and \<open>d = linePrice * value / 100\<close> for a percentage coupon,
  \<open>value\<close> for a flat one.  It is \<open>min(d, linePrice)\<close> itself whenever that is a whole
  number of cents and the amounts are at most \<open>2^40\<close>, and the answer is the same in every
  state that holds the same coupon.  The line price and the coupon value are at most
  \<open>2^500\<close> in magnitude, so that no product overflows.
\<close>

theorem verifyCouponCode_discount:
  assumes "coupon_cart req = Some c"
    and "couponCode req \<noteq> []"
    and "discount_codes_table w (couponCode req) = Some d"
    and "discount_codes_table w' (couponCode req) = Some d"
    and "find (has_discount (discount_id d)) c = Some m"
    and "discountType d = ''percentage'' \<or> discountType d = ''flat''"
    and "\<bar>of_int (quantity m) * sale_price m\<bar> \<le> 2 ^ 500"
    and "\<bar>discountValue d\<bar> \<le> 2 ^ 500"
  shows "(let linePrice = of_int (quantity m) * sale_price m;
              dv = (if discountType d = ''percentage''
                    then linePrice * discountValue d / 100
                    else discountValue d);
              amount = min dv linePrice
          in (\<exists>n::int. coupon_amount (fst (verifyCouponCode req w)) = Some (of_int n / 100)
                \<and> \<bar>of_int n / 100 - amount\<bar>
                     \<le> 1 / 200 + (1 + max \<bar>dv\<bar> \<bar>linePrice\<bar>) / 2 ^ 50)
           \<and> ((\<exists>k::int. amount = of_int k / 100) \<and> max \<bar>dv\<bar> \<bar>linePrice\<bar> \<le> 2 ^ 40 \<longrightarrow>
                coupon_amount (fst (verifyCouponCode req w)) = Some amount)
           \<and> fst (verifyCouponCode req w') = fst (verifyCouponCode req w))"
proof -
  define p where "p = of_int (quantity m) * sale_price m"
  define dv where
    "dv = (if discountType d = ''percentage'' then p * discountValue d / 100 else discountValue d)"
  define amount where "amount = min dv p"
  define e where "e = (1 + max \<bar>dv\<bar> \<bar>p\<bar>) / 2 ^ 50"
  define amount' where "amount' = min (raw_discount d (line_price m)) (line_price m)"
  from assms(5) have ne: "c \<noteq> []" by auto
  have P: "line_price m = fl p"
    by (simp add: line_price_def js_mul_def p_def mult.commute)
  have "\<bar>fl p - p\<bar> \<le> (1 + \<bar>p\<bar>) / 2 ^ 50"
    by (rule price_err)
  also have "\<dots> \<le> e"
    unfolding e_def by (intro divide_right_mono) simp_all
  finally have eP: "\<bar>line_price m - p\<bar> \<le> e"
    unfolding P .
  have e0: "0 \<le> e"
    unfolding e_def by (simp add: max_def)
  have eD: "\<bar>raw_discount d (line_price m) - dv\<bar> \<le> e"
  proof (cases "discountType d = ''percentage''")
    case True
    then have rd: "raw_discount d (line_price m) = js_div (js_mul (fl p) (discountValue d)) 100"
      by (simp add: raw_discount_def P)
    from True have dv: "dv = p * discountValue d / 100"
      by (simp add: dv_def)
    have "\<bar>raw_discount d (line_price m) - dv\<bar> \<le> (1 + \<bar>dv\<bar>) / 2 ^ 50"
      unfolding rd dv by (rule percent_err [OF assms(8)])
    also have "\<dots> \<le> e"
      unfolding e_def by (intro divide_right_mono) simp_all
    finally show ?thesis .
  next
    case False
    with assms(6) have "discountType d = ''flat''" by simp
    with False have "raw_discount d (line_price m) = dv"
      by (simp add: raw_discount_def dv_def)
    with e0 show ?thesis by simp
  qed
  have am: "\<bar>amount' - amount\<bar> \<le> e"
    unfolding amount'_def amount_def by (rule min_err [OF eD eP])
  have v: "fst (verifyCouponCode req x) =
               Inr \<lparr>status = 200, body = CouponJson
                 \<lparr>valid = True, discount = discountValue d,
                  r_discountAmount = toFixed2 amount',
                  r_discountedProductId = Some (item_id m),
                  r_discountType = Some (discountType d),
                  r_message = ''Discount applied to 1 eligible product''\<rparr>\<rparr>"
    if "discount_codes_table x (couponCode req) = Some d" for x
    using assms(1,2,5) ne that
    by (simp add: verifyCouponCode_def discount_codes_findUnique_def Let_def amount'_def)
  from toFixed2_cents_near [of amount'] obtain n :: int where
    n: "toFixed2 amount' = of_int n / 100" and nn: "\<bar>of_int n / 100 - amount'\<bar> \<le> 1 / 200"
    by blast
  have r: "coupon_amount (fst (verifyCouponCode req w)) = Some (of_int n / 100)"
    by (simp add: v [OF assms(3)] coupon_amount_def n)
  have near: "\<bar>of_int n / 100 - amount\<bar> \<le> 1 / 200 + e"
    using nn am by linarith
  have 1: "\<exists>n::int. coupon_amount (fst (verifyCouponCode req w)) = Some (of_int n / 100)
             \<and> \<bar>of_int n / 100 - amount\<bar> \<le> 1 / 200 + e"
    using r near by blast
  have 2: "coupon_amount (fst (verifyCouponCode req w)) = Some amount"
    if "(\<exists>k::int. amount = of_int k / 100) \<and> max \<bar>dv\<bar> \<bar>p\<bar> \<le> 2 ^ 40"
  proof -
    from that obtain k :: int where k: "amount = of_int k / 100" and b: "max \<bar>dv\<bar> \<bar>p\<bar> \<le> 2 ^ 40"
      by blast
    from b have "e \<le> (1 + 2 ^ 40) / 2 ^ 50"
      unfolding e_def by (intro divide_right_mono) simp_all
    also have "\<dots> < 1 / 200" by simp
    finally have "\<bar>of_int n / 100 - (of_int k :: rat) / 100\<bar> < 1 / 100"
      using near unfolding k by linarith
    then have "\<bar>(of_int (n - k) :: rat)\<bar> < 1"
      by (simp add: abs_less_iff field_simps)
    then have "(of_int \<bar>n - k\<bar> :: rat) < of_int 1"
      by simp
    then have "\<bar>n - k\<bar> < 1"
      by (simp only: of_int_less_iff)
    then have "n = k" by simp
    with r k show ?thesis by simp
  qed
  have 3: "fst (verifyCouponCode req w') = fst (verifyCouponCode req w)"
    by (simp add: v [OF assms(3)] v [OF assms(4)])
  from 1 2 3 show ?thesis
    unfolding Let_def e_def amount_def dv_def p_def by blast
qed

theorem verifyCouponCode_discount_witness:
  "coupon_cart (coupon_req ''SAVE'' 30) = Some [coupon_line 30]
   \<and> couponCode (coupon_req ''SAVE'' 30) \<noteq> []
   \<and> discount_codes_table (coupon_world ''flat'' 50) ''SAVE'' =
       Some \<lparr>discount_id = ''d1'', discountCode = ''SAVE'', discountType = ''flat'',
             discountValue = 50\<rparr>
   \<and> find (has_discount ''d1'') [coupon_line 30] = Some (coupon_line 30)
   \<and> of_int (quantity (coupon_line 30)) * sale_price (coupon_line 30) = 30
   \<and> coupon_amount (fst (verifyCouponCode (coupon_req ''SAVE'' 30) (coupon_world ''flat'' 50)))
       = Some 30"
proof -
  let ?d = "\<lparr>discount_id = ''d1'', discountCode = ''SAVE'', discountType = ''flat'',
             discountValue = (50::rat)\<rparr>"
  have h1: "coupon_cart (coupon_req ''SAVE'' 30) = Some [coupon_line 30]"
    by (simp add: coupon_req_def)
  have h2: "couponCode (coupon_req ''SAVE'' 30) \<noteq> []"
    by (simp add: coupon_req_def)
  have h3: "discount_codes_table (coupon_world ''flat'' 50) (couponCode (coupon_req ''SAVE'' 30))
              = Some ?d"
    by (simp add: coupon_world_def coupon_req_def)
  have h5: "find (has_discount (discount_id ?d)) [coupon_line 30] = Some (coupon_line 30)"
    by (simp add: has_discount_def coupon_line_def)
  have h6: "discountType ?d = ''percentage'' \<or> discountType ?d = ''flat''"
    by simp
  have p: "of_int (quantity (coupon_line 30)) * sale_price (coupon_line 30) = (30::rat)"
    by (simp add: coupon_line_def mk_item_def)
  have h7: "\<bar>of_int (quantity (coupon_line 30)) * sale_price (coupon_line 30)\<bar> \<le> 2 ^ 500"
    unfolding p by simp
  have h8: "\<bar>discountValue ?d\<bar> \<le> 2 ^ 500"
    by simp
  have dv: "(if discountType ?d = ''percentage'' then 30 * discountValue ?d / 100
             else discountValue ?d) = (50::rat)"
    by simp
  have k: "(\<exists>k::int. min (50::rat) 30 = of_int k / 100) \<and> max \<bar>50::rat\<bar> \<bar>30\<bar> \<le> 2 ^ 40"
  proof
    show "\<exists>k::int. min (50::rat) 30 = of_int k / 100"
      by (rule exI [of _ 3000]) simp
    show "max \<bar>50::rat\<bar> \<bar>30\<bar> \<le> 2 ^ 40"
      by simp
  qed
  have "coupon_amount (fst (verifyCouponCode (coupon_req ''SAVE'' 30) (coupon_world ''flat'' 50)))
          = Some (min 50 30)"
    using verifyCouponCode_discount [OF h1 h2 h3 h3 h5 h6 h7 h8] k
    unfolding Let_def p dv by blast
  then have "coupon_amount (fst (verifyCouponCode (coupon_req ''SAVE'' 30) (coupon_world ''flat'' 50)))
          = Some 30"
    by simp
  with h1 h2 h3 h5 p show ?thesis
    by (simp add: coupon_req_def)
qed

text \<open>C4 as stated fails: for a 10 percent coupon on a line priced 10.05 (the double
  that this text denotes is \<open>2828823515942093 / 2^48\<close>, a little above 10.05),
  \<open>min(d, linePrice)\<close> is a little above 1.005, and the answer carries 1.00.\<close>

theorem verifyCouponCode_rounds_counterexample:
  "coupon_amount (fst (verifyCouponCode
      (coupon_req ''SAVE'' (2828823515942093 / 281474976710656))
      (coupon_world ''percentage'' 10))) = Some 1
   \<and> map (\<lambda>i. (quantity i, sale_price i, discount_codes i))
       [coupon_line (2828823515942093 / 281474976710656)] =
       [(1, 2828823515942093 / 281474976710656, Some [''d1''])]
   \<and> 1005 / 1000 <
       min (of_int (quantity (coupon_line (2828823515942093 / 281474976710656))) *
              sale_price (coupon_line (2828823515942093 / 281474976710656)) * 10 / 100)
           (of_int (quantity (coupon_line (2828823515942093 / 281474976710656))) *
              sale_price (coupon_line (2828823515942093 / 281474976710656)))"
  by code_simp

section \<open>Unknown coupon codes\<close>

text \<open>
  C9 (amended).  When the submitted code is not in the discount-code store, verification
  fails fast: it passes a ValidationError ("Coupon code isn't valid!") to the error
  handler instead of answering \<open>valid = false\<close>, and the single code lookup is the only
  call it has made; nothing else in the state changes.
\<close>

theorem verifyCouponCode_unknown_code:
  assumes "coupon_cart req = Some c"
    and "c \<noteq> []"
    and "couponCode req \<noteq> []"
    and "discount_codes_table w (couponCode req) = None"
  shows "verifyCouponCode req w =
           (Inl (ValidationError ''Coupon code isn't valid!''),
            w\<lparr>calls := calls w @ [DiscountCodesFindUnique (couponCode req)]\<rparr>)"
  using assms
  by (simp add: verifyCouponCode_def discount_codes_findUnique_def trace_def)

theorem verifyCouponCode_unknown_code_witness:
  "coupon_cart (coupon_req ''NOPE'' 30) = Some [coupon_line 30]
   \<and> couponCode (coupon_req ''NOPE'' 30) \<noteq> []
   \<and> discount_codes_table (coupon_world ''flat'' 50) ''NOPE'' = None
   \<and> verifyCouponCode (coupon_req ''NOPE'' 30) (coupon_world ''flat'' 50) =
       (Inl (ValidationError ''Coupon code isn't valid!''),
        (coupon_world ''flat'' 50)\<lparr>calls := calls (coupon_world ''flat'' 50) @
           [DiscountCodesFindUnique ''NOPE'']\<rparr>)"
proof -
  have h1: "coupon_cart (coupon_req ''NOPE'' 30) = Some [coupon_line 30]"
    by (simp add: coupon_req_def)
  have h2: "[coupon_line 30] \<noteq> []" by simp
  have h3: "couponCode (coupon_req ''NOPE'' 30) \<noteq> []"
    by (simp add: coupon_req_def)
  have h4: "discount_codes_table (coupon_world ''flat'' 50) (couponCode (coupon_req ''NOPE'' 30))
              = None"
    by (simp add: coupon_world_def coupon_req_def empty_world_def)
  from verifyCouponCode_unknown_code [OF h1 h2 h3 h4] h1 h3 h4 show ?thesis
    by (simp add: coupon_req_def)
qed

text \<open>C9 as stated fails: for an unknown code the handler answers nothing with
  \<open>valid = false\<close>; it raises.\<close>

theorem verifyCouponCode_unknown_code_counterexample:
  "discount_codes_table (coupon_world ''flat'' 50) ''NOPE'' = None
   \<and> fst (verifyCouponCode (coupon_req ''NOPE'' 30) (coupon_world ''flat'' 50)) =
       Inl (ValidationError ''Coupon code isn't valid!'')
   \<and> \<not> returns_valid_false
         (fst (verifyCouponCode (coupon_req ''NOPE'' 30) (coupon_world ''flat'' 50)))"
  by (simp add: coupon_world_def coupon_req_def empty_world_def verifyCouponCode_def
      discount_codes_findUnique_def returns_valid_false_def)

section \<open>Delivery status\<close>

lemma set_status_cases:
  "set_status oid st t r = r \<or>
   (o_id (set_status oid st t r) = o_id r \<and> o_status (set_status oid st t r) = st)"
  by (simp add: set_status_def)

lemma Paid_not_allowed: "''Paid'' \<notin> set allowedStatuses"
  by (simp add: allowedStatuses_def)

lemma updateDeliveryStatus_orders:
  "orders (snd (updateDeliveryStatus t req w)) = orders w \<or>
   (deliveryStatus req \<in> set allowedStatuses \<and>
    orders (snd (updateDeliveryStatus t req w)) =
      map (set_status (param_orderId req) (deliveryStatus req) t) (orders w))"
  by (simp add: updateDeliveryStatus_def orders_findUnique_def update_order_def trace_def
      split: option.splits)

text \<open>
  C8 (amended).  updateDeliveryStatus leaves every order as it is or gives it a status
  from the list Ordered, Packed, Shipped, Out for Delivery, Delivered; "Paid" is not in
  that list, so no order is ever set to "Paid" by it.  It enforces no order among these
  statuses: an existing order takes whichever allowed status is requested, whatever its
  current status.
\<close>

theorem updateDeliveryStatus_allowed_only:
  "list_all2 (\<lambda>old new. new = old \<or>
                (o_id new = o_id old \<and> o_status new \<in> set allowedStatuses \<and>
                 o_status new \<noteq> ''Paid''))
       (orders w) (orders (snd (updateDeliveryStatus t req w)))
   \<and> (param_orderId req \<noteq> [] \<and> deliveryStatus req \<in> set allowedStatuses \<and>
       r \<in> set (orders w) \<and> o_id r = param_orderId req \<longrightarrow>
        http_status (fst (updateDeliveryStatus t req w)) = Some 200 \<and>
        r\<lparr>o_status := deliveryStatus req, o_updatedAt := t\<rparr>
          \<in> set (orders (snd (updateDeliveryStatus t req w))))"
proof (intro conjI impI)
  let ?P = "\<lambda>old new. new = old \<or>
                (o_id new = o_id old \<and> o_status new \<in> set allowedStatuses \<and>
                 o_status new \<noteq> ''Paid'')"
  from updateDeliveryStatus_orders [of t req w]
  show "list_all2 ?P (orders w) (orders (snd (updateDeliveryStatus t req w)))"
  proof
    assume "orders (snd (updateDeliveryStatus t req w)) = orders w"
    then show ?thesis by (simp add: list_all2_same)
  next
    assume a: "deliveryStatus req \<in> set allowedStatuses \<and>
      orders (snd (updateDeliveryStatus t req w)) =
        map (set_status (param_orderId req) (deliveryStatus req) t) (orders w)"
    then have ne: "deliveryStatus req \<noteq> ''Paid''"
      using Paid_not_allowed by auto
    have "?P x (set_status (param_orderId req) (deliveryStatus req) t x)" for x
      using set_status_cases [of "param_orderId req" "deliveryStatus req" t x] a ne by auto
    then show ?thesis
      using a by (simp add: list_all2_map2 list_all2_same)
  qed
next
  assume h: "param_orderId req \<noteq> [] \<and> deliveryStatus req \<in> set allowedStatuses \<and>
       r \<in> set (orders w) \<and> o_id r = param_orderId req"
  then have ne: "deliveryStatus req \<noteq> []"
    by (auto simp: allowedStatuses_def)
  from h have "find (\<lambda>x. o_id x = param_orderId req) (orders w) \<noteq> None"
    by (auto simp: find_None_iff)
  then obtain x where x: "find (\<lambda>x. o_id x = param_orderId req) (orders w) = Some x"
    by auto
  from h have s: "set_status (param_orderId req) (deliveryStatus req) t r =
                    r\<lparr>o_status := deliveryStatus req, o_updatedAt := t\<rparr>"
    by (simp add: set_status_def)
  have o: "orders (snd (updateDeliveryStatus t req w)) =
             map (set_status (param_orderId req) (deliveryStatus req) t) (orders w)"
    using h ne x
    by (simp add: updateDeliveryStatus_def orders_findUnique_def update_order_def trace_def)
  show "http_status (fst (updateDeliveryStatus t req w)) = Some 200"
    using h ne x
    by (simp add: updateDeliveryStatus_def orders_findUnique_def update_order_def trace_def
        http_status_def)
  show "r\<lparr>o_status := deliveryStatus req, o_updatedAt := t\<rparr>
          \<in> set (orders (snd (updateDeliveryStatus t req w)))"
    unfolding o using h s by (metis image_eqI set_map)
qed

theorem updateDeliveryStatus_allowed_only_witness:
  "list_all2 (\<lambda>old new. new = old \<or>
                (o_id new = o_id old \<and> o_status new \<in> set allowedStatuses \<and>
                 o_status new \<noteq> ''Paid''))
       (orders delivered_world)
       (orders (snd (updateDeliveryStatus 9
          \<lparr>param_orderId = ''o1'', deliveryStatus = ''Packed''\<rparr> delivered_world)))
   \<and> ''Packed'' \<in> set allowedStatuses
   \<and> hd (orders delivered_world) \<in> set (orders delivered_world)
   \<and> o_id (hd (orders delivered_world)) = ''o1''
   \<and> http_status (fst (updateDeliveryStatus 9
          \<lparr>param_orderId = ''o1'', deliveryStatus = ''Packed''\<rparr> delivered_world)) = Some 200
   \<and> (hd (orders delivered_world))\<lparr>o_status := ''Packed'', o_updatedAt := 9\<rparr>
       \<in> set (orders (snd (updateDeliveryStatus 9
          \<lparr>param_orderId = ''o1'', deliveryStatus = ''Packed''\<rparr> delivered_world)))"
proof -
  let ?req = "\<lparr>param_orderId = ''o1'', deliveryStatus = ''Packed''\<rparr>"
  have h: "param_orderId ?req \<noteq> [] \<and> deliveryStatus ?req \<in> set allowedStatuses \<and>
           hd (orders delivered_world) \<in> set (orders delivered_world) \<and>
           o_id (hd (orders delivered_world)) = param_orderId ?req"
    by (simp add: allowedStatuses_def delivered_world_def empty_world_def)
  from updateDeliveryStatus_allowed_only [of delivered_world 9 ?req "hd (orders delivered_world)"] h
  show ?thesis by simp
qed

text \<open>C8 as stated fails: a delivered order is set to "Ordered", a status that is
  not in the specification's sequence and that lies before "Delivered".\<close>

theorem updateDeliveryStatus_counterexample:
  "map o_status (orders delivered_world) = [''Delivered'']
   \<and> map o_status (orders (snd (updateDeliveryStatus 9
        \<lparr>param_orderId = ''o1'', deliveryStatus = ''Ordered''\<rparr> delivered_world))) = [''Ordered'']
   \<and> ''Ordered'' \<notin> set spec_statuses"
  by (simp add: delivered_world_def empty_world_def updateDeliveryStatus_def allowedStatuses_def
      orders_findUnique_def update_order_def trace_def set_status_def spec_statuses_def)

section \<open>What the steps of createOrder leave alone\<close>

lemmas step_defs =
  trace_def sendLog_def redis_del_def orders_create_def update_product_def
  upsert_productAnalytics_def log_purchase_def find_userAnalytics_def
  update_userAnalytics_def create_userAnalytics_def sendEmail_def notifications_create_def
  shops_findMany_def

lemma update_items_redis: "redis (snd (update_items t u s its w)) = redis w"
  by (induction its arbitrary: w) (auto simp: step_defs split: option.splits)

lemma update_items_orders: "orders (snd (update_items t u s its w)) = orders w"
  by (induction its arbitrary: w) (auto simp: step_defs split: option.splits)

lemma update_items_emails: "emails (snd (update_items t u s its w)) = emails w"
  by (induction its arbitrary: w) (auto simp: step_defs split: option.splits)

lemma update_items_notifications:
  "notifications (snd (update_items t u s its w)) = notifications w"
  by (induction its arbitrary: w) (auto simp: step_defs split: option.splits)

lemma update_items_shops: "shops (snd (update_items t u s its w)) = shops w"
  by (induction its arbitrary: w) (auto simp: step_defs split: option.splits)

lemma notify_sellers_redis: "redis (notify_sellers u oid all ss w) = redis w"
  by (induction ss arbitrary: w) (auto simp: step_defs)

lemma notify_sellers_orders: "orders (notify_sellers u oid all ss w) = orders w"
  by (induction ss arbitrary: w) (auto simp: step_defs)

lemma notify_sellers_emails: "emails (notify_sellers u oid all ss w) = emails w"
  by (induction ss arbitrary: w) (auto simp: step_defs)

lemma notify_sellers_notifications:
  "notifications (notify_sellers u oid all ss w) =
     notifications w @
       map (\<lambda>shop. \<lparr>n_title = ''New Order Received'',
                     n_message = ''A customer just ordered '' @ productTitle all (shop_id shop) @
                                 '' from your shop.'',
                     creatorId = u, receiverId = sellerId shop,
                     redirect_link = ''https://TradeSphere.com/order/'' @ oid\<rparr>) ss"
  by (induction ss arbitrary: w) (auto simp: step_defs)

lemmas keeps =
  update_items_redis update_items_orders update_items_emails update_items_notifications
  update_items_shops notify_sellers_redis notify_sellers_orders notify_sellers_emails
  notify_sellers_notifications

subsection \<open>One pass of the loop over the shops\<close>


lemma process_group_redis_ok:
  "fst (process_group en ev sess usr all sid its w) = None \<Longrightarrow>
   redis (snd (process_group en ev sess usr all sid its w)) =
     filter (\<lambda>kv. fst kv \<noteq> session_key ev) (redis w)"
  by (simp add: process_group_def Let_def case_prod_beta keeps step_defs split: option.splits)

lemma process_group_redis_cases:
  "redis (snd (process_group en ev sess usr all sid its w)) = redis w \<or>
   redis (snd (process_group en ev sess usr all sid its w)) =
     filter (\<lambda>kv. fst kv \<noteq> session_key ev) (redis w)"
  by (simp add: process_group_def Let_def case_prod_beta keeps step_defs split: option.splits)

lemma key_absent_map_of: "key_absent k w \<longleftrightarrow> map_of (redis w) k = None"
  by (simp add: key_absent_def map_of_eq_None_iff)

lemma process_group_key_absent_ok:
  "fst (process_group en ev sess usr all sid its w) = None \<Longrightarrow>
   key_absent (session_key ev) (snd (process_group en ev sess usr all sid its w))"
  by (auto simp: key_absent_def process_group_redis_ok)

lemma process_group_key_absent_keep:
  "key_absent (session_key ev) w \<Longrightarrow>
   key_absent (session_key ev) (snd (process_group en ev sess usr all sid its w))"
  using process_group_redis_cases [of en ev sess usr all sid its w]
  by (auto simp: key_absent_def)

lemma process_groups_key_absent_keep:
  "key_absent (session_key ev) w \<Longrightarrow>
   key_absent (session_key ev) (snd (process_groups en ev sess usr all gs w))"
proof (induction gs arbitrary: w)
  case Nil
  then show ?case by simp
next
  case (Cons g gs)
  obtain sid its where g: "g = (sid, its)" by (cases g)
  from Cons.prems have a: "key_absent (session_key ev)
      (snd (process_group en ev sess usr all sid its w))"
    by (rule process_group_key_absent_keep)
  show ?case
    using a Cons.IH [OF a]
    by (simp add: g case_prod_beta split: option.splits)
qed

lemma process_groups_key_absent_ok:
  assumes "fst (process_groups en ev sess usr all gs w) = None" and "gs \<noteq> []"
  shows "key_absent (session_key ev) (snd (process_groups en ev sess usr all gs w))"
proof -
  from assms(2) obtain sid its rest where gs: "gs = (sid, its) # rest"
    by (cases gs) auto
  let ?p = "process_group en ev sess usr all sid its w"
  from assms(1) have ok: "fst ?p = None"
    by (auto simp: gs case_prod_beta split: option.splits)
  then have "key_absent (session_key ev) (snd ?p)"
    by (rule process_group_key_absent_ok)
  then have "key_absent (session_key ev) (snd (process_groups en ev sess usr all rest (snd ?p)))"
    by (rule process_groups_key_absent_keep)
  with ok show ?thesis
    by (simp add: gs case_prod_beta)
qed


section \<open>The webhook before the event is handled\<close>

text \<open>
  C6.  A webhook request whose signature header is missing (or empty), or whose
  verification against the secret throws, is answered with status 400 and the state is
  left exactly as it was: no call is made, nothing is read, written or sent.
\<close>

theorem createOrder_rejects_bad_signature:
  assumes "stripe_signature req = None \<or> stripe_signature req = Some [] \<or>
           (\<exists>sg msg. stripe_signature req = Some sg \<and>
                      constructEvent en (rawBody req) sg = Inl msg)"
  shows "http_status (fst (createOrder en req w)) = Some 400
       \<and> snd (createOrder en req w) = w"
  using assms
  by (auto simp: createOrder_def truthy_def http_status_def split: option.splits)

theorem createOrder_rejects_bad_signature_witness:
  "stripe_signature (signed_by ''forged'') = Some ''forged''
   \<and> constructEvent (demo_env succeeded) (rawBody (signed_by ''forged'')) ''forged'' =
       Inl ''No signatures found matching the expected signature''
   \<and> http_status (fst (createOrder (demo_env succeeded) (signed_by ''forged'')
         (shop_world two_shop_session))) = Some 400
   \<and> snd (createOrder (demo_env succeeded) (signed_by ''forged'') (shop_world two_shop_session))
       = shop_world two_shop_session"
proof -
  have h: "stripe_signature (signed_by ''forged'') = Some ''forged''
       \<and> constructEvent (demo_env succeeded) (rawBody (signed_by ''forged'')) ''forged'' =
           Inl ''No signatures found matching the expected signature''"
    by (simp add: signed_by_def demo_env_def)
  then have "stripe_signature (signed_by ''forged'') = None \<or>
        stripe_signature (signed_by ''forged'') = Some [] \<or>
        (\<exists>sg msg. stripe_signature (signed_by ''forged'') = Some sg \<and>
           constructEvent (demo_env succeeded) (rawBody (signed_by ''forged'')) sg = Inl msg)"
    by blast
  from createOrder_rejects_bad_signature [OF this, of "shop_world two_shop_session"] h
  show ?thesis by blast
qed

lemma createOrder_verified:
  assumes "stripe_signature req = Some sg" and "sg \<noteq> []"
    and "constructEvent en (rawBody req) sg = Inr ev"
  shows "createOrder en req w =
           (case handle_event en ev w of
              (Inl e, w1) \<Rightarrow>
                (Inl e, sendLog ''error'' (''Error in createOrder webhook: '' @ error_message e) w1)
            | (Inr r, w1) \<Rightarrow> (Inr r, w1))"
  using assms by (simp add: createOrder_def truthy_def)

lemma unchanged_refl: "unchanged w w"
  by (simp add: unchanged_def)

lemma unchanged_trace: "unchanged w (trace c w)"
  by (simp add: unchanged_def trace_def)

lemma unchanged_sendLog: "unchanged w (sendLog ty m w)"
  by (simp add: unchanged_def sendLog_def trace_def)

lemma unchanged_trans: "unchanged a b \<Longrightarrow> unchanged b c \<Longrightarrow> unchanged a c"
  by (simp add: unchanged_def)

text \<open>
  C10.  A verified event of any type other than \<open>payment_intent.succeeded\<close> is
  acknowledged with status 200 and \<open>received: true\<close>.  The cache and every table are
  as before, and the only call made is the one to the log service: no session is read or
  deleted, no order, stock, analytics, notification or email is touched.
\<close>

theorem createOrder_other_event:
  assumes "stripe_signature req = Some sg" and "sg \<noteq> []"
    and "constructEvent en (rawBody req) sg = Inr ev"
    and "ev_type ev \<noteq> ''payment_intent.succeeded''"
  shows "fst (createOrder en req w) = Inr \<lparr>status = 200, body = Received\<rparr>
       \<and> unchanged w (snd (createOrder en req w))
       \<and> calls (snd (createOrder en req w)) = calls w @ [SendLog]"
  using assms(4)
  by (simp add: createOrder_verified [OF assms(1-3)] handle_event_def unchanged_sendLog)
     (simp add: sendLog_def trace_def)

theorem createOrder_other_event_witness:
  "stripe_signature (signed_by ''good'') = Some ''good''
   \<and> constructEvent (demo_env ''charge.refunded'') (rawBody (signed_by ''good'')) ''good'' =
       Inr (demo_event ''charge.refunded'')
   \<and> ev_type (demo_event ''charge.refunded'') \<noteq> ''payment_intent.succeeded''
   \<and> fst (createOrder (demo_env ''charge.refunded'') (signed_by ''good'')
         (shop_world two_shop_session)) = Inr \<lparr>status = 200, body = Received\<rparr>
   \<and> unchanged (shop_world two_shop_session)
        (snd (createOrder (demo_env ''charge.refunded'') (signed_by ''good'')
           (shop_world two_shop_session)))
   \<and> calls (snd (createOrder (demo_env ''charge.refunded'') (signed_by ''good'')
         (shop_world two_shop_session))) = calls (shop_world two_shop_session) @ [SendLog]"
proof -
  have h1: "stripe_signature (signed_by ''good'') = Some ''good''"
    by (simp add: signed_by_def)
  have h2: "''good'' \<noteq> []" by simp
  have h3: "constructEvent (demo_env ''charge.refunded'') (rawBody (signed_by ''good'')) ''good''
              = Inr (demo_event ''charge.refunded'')"
    by (simp add: demo_env_def)
  have h4: "ev_type (demo_event ''charge.refunded'') \<noteq> ''payment_intent.succeeded''"
    by (simp add: demo_event_def)
  from createOrder_other_event [OF h1 h2 h3 h4, of "shop_world two_shop_session"] h1 h3 h4
  show ?thesis by blast
qed

section \<open>Splitting the cart by shop\<close>

lemma group_push_keys:
  "map fst (group_push item acc) =
     (if shopId item \<in> fst ` set acc then map fst acc else map fst acc @ [shopId item])"
  by (induction item acc rule: group_push.induct) auto


lemma foldl_group_keys:
  "fst ` set (foldl (\<lambda>acc item. group_push item acc) acc c) = fst ` set acc \<union> shopId ` set c"
proof (induction c arbitrary: acc)
  case Nil
  then show ?case by simp
next
  case (Cons x xs)
  have "set (map fst (group_push x acc)) = insert (shopId x) (set (map fst acc))"
    unfolding group_push_keys by auto
  then have "fst ` set (group_push x acc) = insert (shopId x) (fst ` set acc)"
    by simp
  then show ?case by (simp add: Cons.IH)
qed



lemma reduce_groups_foldl:
  "reduce_groups acc c = Inr g \<Longrightarrow> g = foldl (\<lambda>acc item. group_push item acc) acc c"
  by (induction c arbitrary: acc) (auto split: if_splits)

lemma shopGrouped_Nil: "shopGrouped [] = Inr []"
  by (simp add: shopGrouped_def)

lemma shopGrouped_keys: "shopGrouped c = Inr g \<Longrightarrow> fst ` set g = shopId ` set c"
  using foldl_group_keys [of "[]" c] reduce_groups_foldl [of "[]" c g]
  by (simp add: shopGrouped_def)


lemma shopGrouped_Nil_iff:
  assumes "shopGrouped c = Inr g"
  shows "g = [] \<longleftrightarrow> c = []"
proof -
  from assms have "fst ` set g = shopId ` set c"
    by (rule shopGrouped_keys)
  then show ?thesis
    by (metis image_is_empty set_empty)
qed


lemma set_for_in: "set (for_in g) = set g"
  by (auto simp: for_in_def)

lemma for_in_Nil_iff: "for_in g = [] \<longleftrightarrow> g = []"
  using set_for_in [of g] by (metis set_empty)











section \<open>Replayed events\<close>

lemma handle_event_no_session:
  assumes "ev_type ev = ''payment_intent.succeeded''"
    and "key_absent (session_key ev) w"
  shows "handle_event en ev w =
           (Inr \<lparr>status = 200, body = Text ''No session found, skipping order creation''\<rparr>,
            trace (RedisGet (session_key ev)) w)"
  using assms by (simp add: handle_event_def redis_get_def key_absent_map_of)

lemma handle_event_session:
  assumes "ev_type ev = ''payment_intent.succeeded''"
    and "map_of (redis w) (session_key ev) = Some sess"
    and "shopGrouped (cart sess) = Inr g"
  shows "handle_event en ev w =
           (case process_groups en ev sess (users w (meta_userId ev)) g (for_in g)
                   (trace (UsersFindUnique (meta_userId ev)) (trace (RedisGet (session_key ev)) w)) of
              (Some e, w3) \<Rightarrow> (Inl e, w3)
            | (None, w3) \<Rightarrow>
                (Inr \<lparr>status = 200, body = Received\<rparr>,
                 sendLog ''success'' ''Stripe webhook processed for session unknown'' w3))"
  using assms
  by (simp add: handle_event_def redis_get_def users_findUnique_def trace_def)

lemma handle_event_ungrouped:
  assumes "ev_type ev = ''payment_intent.succeeded''"
    and "map_of (redis w) (session_key ev) = Some sess"
    and "shopGrouped (cart sess) = Inl e"
  shows "fst (handle_event en ev w) = Inl e"
  using assms
  by (simp add: handle_event_def redis_get_def users_findUnique_def trace_def)

text \<open>What a completed materialization of a found session has been through.\<close>

lemma createOrder_completed:
  assumes v: "stripe_signature req = Some sg" "sg \<noteq> []"
      "constructEvent en (rawBody req) sg = Inr ev"
    and t: "ev_type ev = ''payment_intent.succeeded''"
    and s: "map_of (redis w) (session_key ev) = Some sess"
    and ok: "http_status (fst (createOrder en req w)) = Some 200"
  shows "\<exists>g. shopGrouped (cart sess) = Inr g
       \<and> fst (process_groups en ev sess (users w (meta_userId ev)) g (for_in g)
            (trace (UsersFindUnique (meta_userId ev))
               (trace (RedisGet (session_key ev)) w))) = None
       \<and> snd (createOrder en req w) =
           sendLog ''success'' ''Stripe webhook processed for session unknown''
             (snd (process_groups en ev sess (users w (meta_userId ev)) g (for_in g)
                (trace (UsersFindUnique (meta_userId ev))
                   (trace (RedisGet (session_key ev)) w))))"
proof (cases "shopGrouped (cart sess)")
  case (Inl e)
  from handle_event_ungrouped [OF t s Inl, of en] ok show ?thesis
    by (simp add: createOrder_verified [OF v] http_status_def case_prod_beta)
next
  case (Inr g)
  let ?p = "process_groups en ev sess (users w (meta_userId ev)) g (for_in g)
              (trace (UsersFindUnique (meta_userId ev)) (trace (RedisGet (session_key ev)) w))"
  note h = handle_event_session [OF t s Inr, of en]
  from ok have f: "fst ?p = None"
    by (simp add: createOrder_verified [OF v] h http_status_def case_prod_beta
        split: option.splits)
  then have "snd (createOrder en req w) =
      sendLog ''success'' ''Stripe webhook processed for session unknown'' (snd ?p)"
    by (simp add: createOrder_verified [OF v] h case_prod_beta)
  with Inr f show ?thesis by blast
qed

lemma key_absent_trace: "key_absent k (trace c w) = key_absent k w"
  by (simp add: key_absent_def trace_def)

lemma key_absent_sendLog: "key_absent k (sendLog ty m w) = key_absent k w"
  by (simp add: key_absent_def sendLog_def trace_def)

lemma replay_no_session:
  assumes v: "stripe_signature req = Some sg" "sg \<noteq> []"
      "constructEvent en (rawBody req) sg = Inr ev"
    and t: "ev_type ev = ''payment_intent.succeeded''"
    and a: "key_absent (session_key ev) w"
  shows "createOrder en req w =
           (Inr \<lparr>status = 200, body = Text ''No session found, skipping order creation''\<rparr>,
            trace (RedisGet (session_key ev)) w)"
  by (simp add: createOrder_verified [OF v] handle_event_no_session [OF t a])

lemma replay_empty_cart:
  assumes v: "stripe_signature req = Some sg" "sg \<noteq> []"
      "constructEvent en (rawBody req) sg = Inr ev"
    and t: "ev_type ev = ''payment_intent.succeeded''"
    and s: "map_of (redis w) (session_key ev) = Some sess"
    and c: "cart sess = []"
  shows "createOrder en req w =
           (Inr \<lparr>status = 200, body = Received\<rparr>,
            sendLog ''success'' ''Stripe webhook processed for session unknown''
              (trace (UsersFindUnique (meta_userId ev)) (trace (RedisGet (session_key ev)) w)))"
proof -
  from c have g: "shopGrouped (cart sess) = Inr []"
    by (simp add: shopGrouped_Nil)
  have n: "for_in [] = []"
    by (simp add: for_in_Nil_iff)
  show ?thesis
    by (simp add: createOrder_verified [OF v] handle_event_session [OF t s g] n)
qed

text \<open>
  C1.  Take a verified "payment succeeded" event whose first delivery was acknowledged
  with status 200.  A second delivery of the same event is acknowledged with status 200
  as well and is a no-op: the cache, the orders, the stock, the analytics, the
  notifications and the emails are what the first delivery left.  If the first delivery
  found a session with a non-empty cart, it deleted that session, and the second delivery
  answers "No session found, skipping order creation".
\<close>

theorem createOrder_replay_noop:
  assumes v: "stripe_signature req = Some sg" "sg \<noteq> []"
      "constructEvent en (rawBody req) sg = Inr ev"
    and t: "ev_type ev = ''payment_intent.succeeded''"
    and v': "stripe_signature req' = Some sg'" "sg' \<noteq> []"
      "constructEvent en' (rawBody req') sg' = Inr ev"
    and ok: "http_status (fst (createOrder en req w)) = Some 200"
  shows "http_status (fst (createOrder en' req' (snd (createOrder en req w)))) = Some 200
       \<and> unchanged (snd (createOrder en req w))
           (snd (createOrder en' req' (snd (createOrder en req w))))
       \<and> (\<forall>sess. map_of (redis w) (session_key ev) = Some sess \<and> cart sess \<noteq> [] \<longrightarrow>
             map_of (redis (snd (createOrder en req w))) (session_key ev) = None \<and>
             fst (createOrder en' req' (snd (createOrder en req w))) =
               Inr \<lparr>status = 200, body = Text ''No session found, skipping order creation''\<rparr>)"
proof -
  define w1 where "w1 = snd (createOrder en req w)"
  let ?k = "session_key ev"
  have first: "(key_absent ?k w1 \<or> (\<exists>s. map_of (redis w1) ?k = Some s \<and> cart s = []))
      \<and> (\<forall>sess. map_of (redis w) ?k = Some sess \<and> cart sess \<noteq> [] \<longrightarrow> key_absent ?k w1)"
  proof (cases "map_of (redis w) ?k")
    case None
    then have a: "key_absent ?k w"
      by (simp add: key_absent_map_of)
    have "w1 = trace (RedisGet ?k) w"
      unfolding w1_def by (simp add: replay_no_session [OF v t a])
    with a None show ?thesis
      by (simp add: key_absent_trace)
  next
    case (Some sess)
    let ?w0 = "trace (UsersFindUnique (meta_userId ev)) (trace (RedisGet ?k) w)"
    from createOrder_completed [OF v t Some ok] obtain g where
      g: "shopGrouped (cart sess) = Inr g"
      and f: "fst (process_groups en ev sess (users w (meta_userId ev)) g (for_in g) ?w0) = None"
      and e: "w1 = sendLog ''success'' ''Stripe webhook processed for session unknown''
                (snd (process_groups en ev sess (users w (meta_userId ev)) g (for_in g) ?w0))"
      unfolding w1_def by blast
    show ?thesis
    proof (cases "cart sess = []")
      case True
      with g have "for_in g = []"
        by (simp add: shopGrouped_Nil_iff for_in_Nil_iff)
      then have "redis w1 = redis w"
        unfolding e by (simp add: sendLog_def trace_def)
      with Some True show ?thesis by simp
    next
      case False
      with g have n: "for_in g \<noteq> []"
        by (simp add: shopGrouped_Nil_iff for_in_Nil_iff)
      have "key_absent ?k
          (snd (process_groups en ev sess (users w (meta_userId ev)) g (for_in g) ?w0))"
        by (rule process_groups_key_absent_ok [OF f n])
      then have "key_absent ?k w1"
        unfolding e by (simp add: key_absent_sendLog)
      then show ?thesis by simp
    qed
  qed
  have second: "http_status (fst (createOrder en' req' w1)) = Some 200
      \<and> unchanged w1 (snd (createOrder en' req' w1))
      \<and> (key_absent ?k w1 \<longrightarrow>
           fst (createOrder en' req' w1) =
             Inr \<lparr>status = 200, body = Text ''No session found, skipping order creation''\<rparr>)"
  proof (cases "key_absent ?k w1")
    case True
    show ?thesis
      by (simp add: replay_no_session [OF v' t True] http_status_def unchanged_trace)
  next
    case False
    with first obtain s where s: "map_of (redis w1) ?k = Some s" and c: "cart s = []"
      by blast
    show ?thesis
      using False
      by (simp add: replay_empty_cart [OF v' t s c] http_status_def unchanged_def
          sendLog_def trace_def)
  qed
  from first second show ?thesis
    unfolding w1_def [symmetric] by (auto simp: key_absent_map_of)
qed

theorem createOrder_replay_noop_witness:
  "stripe_signature (signed_by ''good'') = Some ''good''
   \<and> constructEvent (demo_env succeeded) (rawBody (signed_by ''good'')) ''good'' =
       Inr (demo_event succeeded)
   \<and> ev_type (demo_event succeeded) = ''payment_intent.succeeded''
   \<and> http_status (fst (createOrder (demo_env succeeded) (signed_by ''good'')
        (shop_world two_shop_session))) = Some 200
   \<and> map_of (redis (shop_world two_shop_session)) (session_key (demo_event succeeded)) =
       Some two_shop_session
   \<and> cart two_shop_session \<noteq> []
   \<and> http_status (fst (createOrder (demo_env succeeded) (signed_by ''good'')
        (snd (createOrder (demo_env succeeded) (signed_by ''good'')
           (shop_world two_shop_session))))) = Some 200
   \<and> unchanged
        (snd (createOrder (demo_env succeeded) (signed_by ''good'') (shop_world two_shop_session)))
        (snd (createOrder (demo_env succeeded) (signed_by ''good'')
           (snd (createOrder (demo_env succeeded) (signed_by ''good'')
              (shop_world two_shop_session)))))
   \<and> map_of (redis (snd (createOrder (demo_env succeeded) (signed_by ''good'')
        (shop_world two_shop_session)))) (session_key (demo_event succeeded)) = None
   \<and> fst (createOrder (demo_env succeeded) (signed_by ''good'')
        (snd (createOrder (demo_env succeeded) (signed_by ''good'')
           (shop_world two_shop_session)))) =
       Inr \<lparr>status = 200, body = Text ''No session found, skipping order creation''\<rparr>"
proof -
  have h1: "stripe_signature (signed_by ''good'') = Some ''good''"
    by (simp add: signed_by_def)
  have h2: "''good'' \<noteq> []" by simp
  have h3: "constructEvent (demo_env succeeded) (rawBody (signed_by ''good'')) ''good''
              = Inr (demo_event succeeded)"
    by (simp add: demo_env_def)
  have h4: "ev_type (demo_event succeeded) = ''payment_intent.succeeded''"
    by (simp add: demo_event_def succeeded_def)
  have h5: "http_status (fst (createOrder (demo_env succeeded) (signed_by ''good'')
        (shop_world two_shop_session))) = Some 200"
    by code_simp
  have h6: "map_of (redis (shop_world two_shop_session)) (session_key (demo_event succeeded)) =
       Some two_shop_session \<and> cart two_shop_session \<noteq> []"
    by (simp add: shop_world_def empty_world_def session_key_def demo_event_def
        two_shop_session_def)
  from createOrder_replay_noop [OF h1 h2 h3 h4 h1 h2 h3 h5] h1 h3 h4 h5 h6
  show ?thesis by blast
qed

section \<open>One order for each shop\<close>





section \<open>Where the handlers depart from the claims\<close>

text \<open>
  C3.  createOrder subtracts the cached coupon amount as it is: for a session with one
  line priced 30 and a flat coupon of 50 on that product, the order total is -20.  The
  discount exceeds the price of the eligible line and the total is negative, where
  verifyCouponCode clamps the same discount to 30.
\<close>

theorem createOrder_discount_not_clamped:
  "line_price (hd (cart flat50_session)) = 30
   \<and> map o_total (orders (snd (createOrder (demo_env succeeded) (signed_by ''good'')
        (shop_world flat50_session)))) = [- 20]
   \<and> coupon_amount (fst (verifyCouponCode (coupon_req ''SAVE'' 30) (coupon_world ''flat'' 50)))
       = Some 30"
  by code_simp

text \<open>
  C5.  The session is stored under the key \<open>payment-session: <id>\<close>, with a space, and
  a repeated call answers the text after the colon of that key.  For the same owner and
  the same one-line cart the first call answers the id \<open>id1\<close> with status 201 and the
  second answers \<open> id1\<close>, with a leading space, with status 200: not the same
  sessionId.  With two lines or more the comparison function of the sort throws and no
  session is ever created.
\<close>

theorem createPaymentSession_repeat_differs:
  "fst (createPaymentSession ''id1'' (cart_request [mk_item ''p1'' 1 10 ''A'']) empty_world) =
     Inr \<lparr>status = 201, body = SessionId (Some ''id1'')\<rparr>
   \<and> fst (createPaymentSession ''id2'' (cart_request [mk_item ''p1'' 1 10 ''A''])
        (snd (createPaymentSession ''id1'' (cart_request [mk_item ''p1'' 1 10 ''A''])
           empty_world))) =
     Inr \<lparr>status = 200, body = SessionId (Some '' id1'')\<rparr>
   \<and> map fst (redis (snd (createPaymentSession ''id1''
        (cart_request [mk_item ''p1'' 1 10 ''A'']) empty_world))) = [''payment-session: id1'']
   \<and> fst (createPaymentSession ''id1''
        (cart_request [mk_item ''p1'' 1 10 ''A'', mk_item ''p2'' 1 5 ''A'']) empty_world) =
     Inl (TypeError ''a.id.localCompare is not a function'')
   \<and> map fst (redis (snd (createPaymentSession ''id1''
        (cart_request [mk_item ''p1'' 1 10 ''A'', mk_item ''p2'' 1 5 ''A'']) empty_world))) = []"
  by code_simp

text \<open>
  C7.  The confirmation email, the notifications to the sellers and the notification to
  the administrator are sent inside the loop over the shops.  For the cart with shops A
  and B one materialization sends two emails to the buyer, two notifications to each of
  the two sellers and two notifications to the administrator.
\<close>

theorem createOrder_fanout_per_shop:
  "map e_to (emails (snd (createOrder (demo_env succeeded) (signed_by ''good'')
      (shop_world two_shop_session)))) = [Some ''uma@example.org'', Some ''uma@example.org'']
   \<and> map receiverId (notifications (snd (createOrder (demo_env succeeded) (signed_by ''good'')
        (shop_world two_shop_session)))) = [''sa'', ''sb'', ''admin'', ''sa'', ''sb'', ''admin'']"
  by code_simp

end
